theory Spec2Isabelle
  imports Complex_Main "HOL-Library.AList"
begin

section \<open>Python outcomes\<close>

text \<open>
  The module under verification is \<^verbatim>\<open>enhancing/losses/vqperceptual.py\<close>. A Python call either
  returns a value or raises; an exception is the left summand of the result. The string
  carried by \<open>AttributeError\<close> and \<open>NameError\<close> is the name that could not be resolved.
\<close>

datatype error =
    AttributeError string
  | NameError string
  | RuntimeError
  | AssertionError
  | ValueError
  | TypeError
  | IndexError

fun and_then :: "error + 'a \<Rightarrow> ('a \<Rightarrow> error + 'b) \<Rightarrow> error + 'b" where
  "and_then (Inl e) f = Inl e"
| "and_then (Inr x) f = f x"

section \<open>Tensors\<close>

text \<open>
  A tensor is its shape and its elements in row-major order. Elements are real numbers:
  the model idealises finite floating-point arithmetic, so rounding, infinities and NaN
  (for instance the mean of a tensor with no elements) are outside it. A Python float and a
  zero-dimensional tensor of the same value are both \<open>scalar x\<close>.
\<close>

record tensor =
  shape :: "nat list"
  elems :: "real list"

definition scalar :: "real \<Rightarrow> tensor" where
  "scalar x = \<lparr>shape = [], elems = [x]\<rparr>"

definition pointwise :: "(real \<Rightarrow> real) \<Rightarrow> tensor \<Rightarrow> tensor" where
  "pointwise f t = \<lparr>shape = shape t, elems = map f (elems t)\<rparr>"

definition clamp :: "real \<Rightarrow> real \<Rightarrow> real \<Rightarrow> real" where
  \<comment> \<open>\<^verbatim>\<open>x.clamp(lo, hi)\<close> on one element\<close>
  "clamp lo hi x = min (max x lo) hi"

definition logit :: "real \<Rightarrow> real \<Rightarrow> real" where
  \<comment> \<open>\<^verbatim>\<open>x.logit(eps=eps)\<close> on one element: the input is clamped to \<open>[eps, 1 - eps]\<close> first\<close>
  "logit eps x = (let z = clamp eps (1 - eps) x in ln (z / (1 - z)))"

definition sigmoid :: "real \<Rightarrow> real" where
  "sigmoid x = 1 / (1 + exp (- x))"

definition t_logit :: "real \<Rightarrow> tensor \<Rightarrow> tensor" where
  "t_logit eps t = pointwise (logit eps) t"

definition t_sigmoid :: "tensor \<Rightarrow> tensor" where
  "t_sigmoid t = pointwise sigmoid t"

definition t_abs :: "tensor \<Rightarrow> tensor" where
  "t_abs t = pointwise abs t"

definition t_exp :: "tensor \<Rightarrow> tensor" where
  "t_exp t = pointwise exp t"

definition t_pow2 :: "tensor \<Rightarrow> tensor" where
  \<comment> \<open>\<^verbatim>\<open>t.pow(2)\<close>\<close>
  "t_pow2 t = pointwise (\<lambda>x. x\<^sup>2) t"

definition t_clamp :: "real \<Rightarrow> real \<Rightarrow> tensor \<Rightarrow> tensor" where
  "t_clamp lo hi t = pointwise (clamp lo hi) t"

definition t_mean :: "tensor \<Rightarrow> tensor" where
  "t_mean t = scalar (sum_list (elems t) / real (length (elems t)))"

definition t_sum :: "tensor \<Rightarrow> tensor" where
  "t_sum t = scalar (sum_list (elems t))"

definition l2 :: "real list \<Rightarrow> real" where
  "l2 xs = sqrt (sum_list (map (\<lambda>x. x\<^sup>2) xs))"

definition t_norm :: "tensor \<Rightarrow> tensor" where
  \<comment> \<open>\<^verbatim>\<open>torch.norm(t)\<close>: the 2-norm over all elements\<close>
  "t_norm t = scalar (l2 (elems t))"

definition detach :: "tensor \<Rightarrow> tensor" where
  \<comment> \<open>\<^verbatim>\<open>detach\<close> and \<^verbatim>\<open>clone\<close> keep the value\<close>
  "detach t = t"

definition clone :: "tensor \<Rightarrow> tensor" where
  "clone t = t"

subsection \<open>Broadcasting binary operations\<close>

fun broadcast_rev :: "nat list \<Rightarrow> nat list \<Rightarrow> nat list option" where
  "broadcast_rev [] ys = Some ys"
| "broadcast_rev (x # xs) [] = Some (x # xs)"
| "broadcast_rev (x # xs) (y # ys) =
     (if x = y \<or> y = 1 then map_option ((#) x) (broadcast_rev xs ys)
      else if x = 1 then map_option ((#) y) (broadcast_rev xs ys)
      else None)"

definition broadcast_shapes :: "nat list \<Rightarrow> nat list \<Rightarrow> nat list option" where
  \<comment> \<open>shapes are aligned at their last dimension; a dimension of size 1 stretches\<close>
  "broadcast_shapes a b = map_option rev (broadcast_rev (rev a) (rev b))"

definition block :: "nat \<Rightarrow> nat \<Rightarrow> 'a list \<Rightarrow> 'a list" where
  \<comment> \<open>the \<open>i\<close>-th run of \<open>k\<close> consecutive elements\<close>
  "block k i xs = take k (drop (i * k) xs)"

fun expand :: "nat list \<Rightarrow> nat list \<Rightarrow> real list \<Rightarrow> real list" where
  "expand (n # ns) (m # ms) xs =
     (if m = n then concat (map (\<lambda>i. expand ns ms (block (prod_list ms) i xs)) [0..<n])
      else concat (replicate n (expand ns ms xs)))"
| "expand ns ms xs = xs"

definition expand_to :: "nat list \<Rightarrow> tensor \<Rightarrow> real list" where
  \<comment> \<open>the elements of \<open>t\<close> broadcast to the shape \<open>sh\<close>\<close>
  "expand_to sh t =
     expand sh (replicate (length sh - length (shape t)) 1 @ shape t) (elems t)"

definition bop :: "(real \<Rightarrow> real \<Rightarrow> real) \<Rightarrow> tensor \<Rightarrow> tensor \<Rightarrow> error + tensor" where
  \<comment> \<open>an elementwise binary operation of two tensors; shapes that do not broadcast raise\<close>
  "bop f a b =
     (case broadcast_shapes (shape a) (shape b) of
        None \<Rightarrow> Inl RuntimeError
      | Some sh \<Rightarrow> Inr \<lparr>shape = sh, elems = map2 f (expand_to sh a) (expand_to sh b)\<rparr>)"

definition iadd :: "tensor \<Rightarrow> tensor \<Rightarrow> error + tensor" where
  \<comment> \<open>\<^verbatim>\<open>a += b\<close>: the result is written into \<open>a\<close>, so it must have the shape of \<open>a\<close>\<close>
  "iadd a b =
     (case broadcast_shapes (shape a) (shape b) of
        None \<Rightarrow> Inl RuntimeError
      | Some sh \<Rightarrow>
          if sh = shape a
          then Inr \<lparr>shape = sh, elems = map2 (+) (expand_to sh a) (expand_to sh b)\<rparr>
          else Inl RuntimeError)"

subsection \<open>Splitting, reshaping and row norms\<close>

definition split_sizes :: "nat \<Rightarrow> nat \<Rightarrow> nat list" where
  \<comment> \<open>the sizes of the pieces \<^verbatim>\<open>chunk(chunks)\<close> cuts a dimension of size \<open>c\<close> into\<close>
  "split_sizes chunks c =
     (let s = (c + chunks - 1) div chunks
      in if c = 0 then replicate chunks 0
         else replicate (c div s) s @ (if c mod s = 0 then [] else [c mod s]))"

definition piece :: "tensor \<Rightarrow> nat \<Rightarrow> nat \<Rightarrow> nat \<Rightarrow> tensor" where
  \<comment> \<open>the slice \<open>[off, off + len)\<close> of dimension \<open>d\<close>\<close>
  "piece t d off len =
     (let outer = prod_list (take d (shape t));
          c = shape t ! d;
          inner = prod_list (drop (Suc d) (shape t))
      in \<lparr>shape = (shape t)[d := len],
          elems = concat (map (\<lambda>out. take (len * inner)
                                      (drop ((out * c + off) * inner) (elems t)))
                              [0..<outer])\<rparr>)"

datatype view_step = Slice nat nat nat | Select nat | Reshape "nat list"

fun apply_step :: "view_step \<Rightarrow> tensor \<Rightarrow> tensor" where
  \<comment> \<open>what a view shows of the tensor it was taken from: the slice \<open>[off, off + len)\<close> of a
      dimension, the \<open>i\<close>-th entry of the first dimension, or the same elements in another
      shape\<close>
  "apply_step (Slice d off len) t = piece t d off len"
| "apply_step (Select i) t =
     \<lparr>shape = tl (shape t), elems = block (prod_list (tl (shape t))) i (elems t)\<rparr>"
| "apply_step (Reshape sh) t = \<lparr>shape = sh, elems = elems t\<rparr>"

definition chunk_steps :: "nat \<Rightarrow> nat \<Rightarrow> nat list \<Rightarrow> error + view_step list" where
  \<comment> \<open>\<^verbatim>\<open>chunk\<close> first refuses a tensor without dimensions and a number of chunks that is
      not positive (\<^verbatim>\<open>RuntimeError\<close>), then looks up the dimension (\<^verbatim>\<open>IndexError\<close>)\<close>
  "chunk_steps chunks d sh =
     (if sh = [] \<or> chunks = 0 then Inl RuntimeError
      else if length sh \<le> d then Inl IndexError
      else let sizes = split_sizes chunks (sh ! d)
           in Inr (map (\<lambda>i. Slice d (sum_list (take i sizes)) (sizes ! i)) [0..<length sizes]))"

definition chunk :: "nat \<Rightarrow> nat \<Rightarrow> tensor \<Rightarrow> error + tensor list" where
  \<comment> \<open>\<^verbatim>\<open>t.chunk(chunks, dim=d)\<close>: a tuple of tensors\<close>
  "chunk chunks d t =
     and_then (chunk_steps chunks d (shape t)) (\<lambda>steps.
     Inr (map (\<lambda>s. apply_step s t) steps))"

definition rows_step :: "nat \<Rightarrow> tensor \<Rightarrow> error + view_step" where
  "rows_step b t =
     (let n = length (elems t)
      in if b = 0 \<or> \<not> b dvd n then Inl RuntimeError else Inr (Reshape [b, n div b]))"

definition view_rows :: "nat \<Rightarrow> tensor \<Rightarrow> error + tensor" where
  \<comment> \<open>\<^verbatim>\<open>t.view(b, -1)\<close>\<close>
  "view_rows b t = and_then (rows_step b t) (\<lambda>s. Inr (apply_step s t))"

definition norm_rows :: "tensor \<Rightarrow> error + tensor" where
  \<comment> \<open>\<^verbatim>\<open>t.norm(2, dim=1)\<close>: the 2-norm of every row\<close>
  "norm_rows t =
     (case shape t of
        b # k # rest \<Rightarrow>
          Inr \<lparr>shape = b # rest,
               elems = map (\<lambda>p. l2 (map (\<lambda>j. elems t ! ((fst p * k + j) * prod_list rest + snd p))
                                          [0..<k]))
                           (List.product [0..<b] [0..<prod_list rest])\<rparr>
      | _ \<Rightarrow> Inl IndexError)"

section \<open>Python objects\<close>

text \<open>
  \<^verbatim>\<open>Tensor.chunk\<close> returns a tuple of tensors. A tuple has no method \<^verbatim>\<open>contiguous\<close>; a
  tensor has, and it keeps the value. Unpacking into two names needs exactly two items; a
  tensor iterates over its first dimension.
\<close>

datatype pyobj = PyTensor tensor | PyTuple "tensor list"

fun contiguous :: "pyobj \<Rightarrow> error + pyobj" where
  "contiguous (PyTensor t) = Inr (PyTensor t)"
| "contiguous (PyTuple ts) = Inl (AttributeError ''contiguous'')"

fun items :: "pyobj \<Rightarrow> error + tensor list" where
  "items (PyTuple ts) = Inr ts"
| "items (PyTensor t) =
     (case shape t of
        [] \<Rightarrow> Inl TypeError
      | n # rest \<Rightarrow> Inr (map (\<lambda>i. apply_step (Select i) t) [0..<n]))"

definition unpack2 :: "pyobj \<Rightarrow> error + tensor \<times> tensor" where
  "unpack2 obj =
     and_then (items obj)
       (\<lambda>ts. case ts of [a, b] \<Rightarrow> Inr (a, b) | _ \<Rightarrow> Inl ValueError)"

section \<open>Collaborators\<close>

text \<open>
  The perceptual network (\<^verbatim>\<open>lpips.LPIPS\<close>), the discriminator network
  (\<^verbatim>\<open>StyleDiscriminator\<close>) and the automatic differentiation engine are outside the module.
  The two networks are functions that may raise. The gradients a call asks the engine for
  depend on the computation graph, which a tensor's value does not determine, so the
  engine is a parameter: for each of the three requests the module makes, it is given the
  differentiated value and the tensor differentiated against, and answers with the
  gradient or raises.
\<close>

datatype grad_request = Of_nll_loss | Of_g_loss | Of_logits_real_sum

type_synonym autograd = "grad_request \<Rightarrow> tensor \<Rightarrow> tensor option \<Rightarrow> error + tensor"

subsection \<open>The adversarial loss functions\<close>

definition mean_of :: "tensor \<Rightarrow> real" where
  "mean_of t = sum_list (elems t) / real (length (elems t))"

definition relu :: "real \<Rightarrow> real" where
  "relu x = max 0 x"

definition softplus :: "real \<Rightarrow> real" where
  "softplus x = ln (1 + exp x)"

definition hinge_d_loss :: "tensor \<Rightarrow> tensor option \<Rightarrow> tensor" where
  \<comment> \<open>Modelled from the spec: \<^verbatim>\<open>hinge_d_loss\<close> is defined in \<^verbatim>\<open>layers.py\<close>, which is not among
      the sources. With the fake logits alone it is the generator form, \<open>- mean\<close>; with
      both it is the halved sum of the two rectified means.\<close>
  "hinge_d_loss logits_fake logits_real =
     (case logits_real of
        None \<Rightarrow> scalar (- mean_of logits_fake)
      | Some logits \<Rightarrow>
          scalar ((mean_of (pointwise (\<lambda>x. relu (1 - x)) logits)
                   + mean_of (pointwise (\<lambda>x. relu (1 + x)) logits_fake)) / 2))"

definition vanilla_d_loss :: "tensor \<Rightarrow> tensor option \<Rightarrow> tensor" where
  \<comment> \<open>Modelled from the spec: \<^verbatim>\<open>vanilla_d_loss\<close> of \<^verbatim>\<open>layers.py\<close>; binary cross entropy with
      logits against the label 1 is the mean of \<open>softplus (- x)\<close>, against 0 of
      \<open>softplus x\<close>.\<close>
  "vanilla_d_loss logits_fake logits_real =
     (case logits_real of
        None \<Rightarrow> scalar (mean_of (pointwise (\<lambda>x. softplus (- x)) logits_fake))
      | Some logits \<Rightarrow>
          scalar ((mean_of (pointwise (\<lambda>x. softplus (- x)) logits)
                   + mean_of (pointwise softplus logits_fake)) / 2))"

definition least_square_d_loss :: "tensor \<Rightarrow> tensor option \<Rightarrow> tensor" where
  \<comment> \<open>Modelled from the spec: \<^verbatim>\<open>least_square_d_loss\<close> of \<^verbatim>\<open>layers.py\<close>.\<close>
  "least_square_d_loss logits_fake logits_real =
     (case logits_real of
        None \<Rightarrow> scalar (mean_of (pointwise (\<lambda>x. (x - 1)\<^sup>2) logits_fake))
      | Some logits \<Rightarrow>
          scalar ((mean_of (pointwise (\<lambda>x. (x - 1)\<^sup>2) logits)
                   + mean_of (pointwise (\<lambda>x. x\<^sup>2) logits_fake)) / 2))"

section \<open>Module instances\<close>

text \<open>
  An instance is the dictionary of the attributes its constructor has bound. Reading an
  attribute that was never bound raises \<open>AttributeError\<close>, as \<^verbatim>\<open>nn.Module.__getattr__\<close>
  does.
\<close>

datatype attr =
    AFloat real
  | AInt int
  | ABool bool
  | ANet "tensor \<Rightarrow> error + tensor"
  | APerceptual "tensor \<Rightarrow> tensor \<Rightarrow> error + tensor"
  | ALoss "tensor \<Rightarrow> tensor option \<Rightarrow> tensor"

type_synonym nn_module = "string \<Rightarrow> attr option"

definition getattr :: "nn_module \<Rightarrow> string \<Rightarrow> error + attr" where
  "getattr self name =
     (case self name of None \<Rightarrow> Inl (AttributeError name) | Some a \<Rightarrow> Inr a)"

fun number :: "attr \<Rightarrow> error + real" where
  "number (AFloat x) = Inr x"
| "number (AInt i) = Inr (of_int i)"
| "number (ABool b) = Inr (if b then 1 else 0)"
| "number a = Inl TypeError"

fun truthy :: "attr \<Rightarrow> bool" where
  "truthy (ABool b) = b"
| "truthy (AFloat x) = (x \<noteq> 0)"
| "truthy (AInt i) = (i \<noteq> 0)"
| "truthy a = True"

fun call_net :: "attr \<Rightarrow> tensor \<Rightarrow> error + tensor" where
  "call_net (ANet f) x = f x"
| "call_net a x = Inl TypeError"

fun call_perceptual :: "attr \<Rightarrow> tensor \<Rightarrow> tensor \<Rightarrow> error + tensor" where
  "call_perceptual (APerceptual f) x y = f x y"
| "call_perceptual a x y = Inl TypeError"

fun call_loss :: "attr \<Rightarrow> tensor \<Rightarrow> tensor option \<Rightarrow> error + tensor" where
  "call_loss (ALoss f) x y = Inr (f x y)"
| "call_loss a x y = Inl TypeError"

definition attr_number :: "nn_module \<Rightarrow> string \<Rightarrow> error + real" where
  "attr_number self name = and_then (getattr self name) number"

definition attr_truthy :: "nn_module \<Rightarrow> string \<Rightarrow> error + bool" where
  "attr_truthy self name = and_then (getattr self name) (\<lambda>a. Inr (truthy a))"

definition set_training :: "bool \<Rightarrow> nn_module \<Rightarrow> nn_module" where
  \<comment> \<open>\<^verbatim>\<open>self.train()\<close> and \<^verbatim>\<open>self.eval()\<close>\<close>
  "set_training b self = self(''training'' \<mapsto> ABool b)"

definition VQLPIPS_init ::
  "(tensor \<Rightarrow> tensor \<Rightarrow> error + tensor) \<Rightarrow> real \<Rightarrow> real \<Rightarrow> real \<Rightarrow> real \<Rightarrow> nn_module" where
  "VQLPIPS_init lpips codebook_weight loglaplace_weight loggaussian_weight perceptual_weight =
     [''training'' \<mapsto> ABool True,
      ''perceptual_loss'' \<mapsto> APerceptual lpips,
      ''codebook_weight'' \<mapsto> AFloat codebook_weight,
      ''loglaplace_weight'' \<mapsto> AFloat loglaplace_weight,
      ''loggaussian_weight'' \<mapsto> AFloat loggaussian_weight,
      ''perceptual_weight'' \<mapsto> AFloat perceptual_weight]"

definition VQLPIPSWithDiscriminator_init ::
  "(tensor \<Rightarrow> tensor \<Rightarrow> error + tensor) \<Rightarrow> (tensor \<Rightarrow> error + tensor) \<Rightarrow> int \<Rightarrow> string
   \<Rightarrow> real \<Rightarrow> real \<Rightarrow> real \<Rightarrow> real \<Rightarrow> real \<Rightarrow> bool \<Rightarrow> error + nn_module" where
  "VQLPIPSWithDiscriminator_init lpips style_discriminator disc_start disc_loss
       codebook_weight loglaplace_weight loggaussian_weight perceptual_weight
       adversarial_weight use_adaptive_adv =
     (if disc_loss \<in> set [''hinge'', ''vanilla'', ''least_square'']
      then Inr
        [''training'' \<mapsto> ABool True,
         ''perceptual_loss'' \<mapsto> APerceptual lpips,
         ''codebook_weight'' \<mapsto> AFloat codebook_weight,
         ''loglaplace_weight'' \<mapsto> AFloat loglaplace_weight,
         ''loggaussian_weight'' \<mapsto> AFloat loggaussian_weight,
         ''perceptual_weight'' \<mapsto> AFloat perceptual_weight,
         ''discriminator'' \<mapsto> ANet style_discriminator,
         ''discriminator_iter_start'' \<mapsto> AInt disc_start,
         ''disc_loss'' \<mapsto>
            ALoss (if disc_loss = ''hinge'' then hinge_d_loss
                   else if disc_loss = ''vanilla'' then vanilla_d_loss
                   else least_square_d_loss),
         ''adversarial_weight'' \<mapsto> AFloat adversarial_weight,
         ''use_adaptive_adv'' \<mapsto> ABool use_adaptive_adv]
      else Inl AssertionError)"

section \<open>The log record\<close>

type_synonym log = "(string \<times> tensor) list"

definition key :: "string option \<Rightarrow> string \<Rightarrow> string" where
  \<comment> \<open>\<^verbatim>\<open>"{}/name".format(split)\<close>; \<^verbatim>\<open>None\<close> is formatted as its name\<close>
  "key split name = (case split of None \<Rightarrow> ''None'' | Some s \<Rightarrow> s) @ ''/'' @ name"

definition load_name :: "(string \<times> 'a) list \<Rightarrow> string \<Rightarrow> error + 'a" where
  \<comment> \<open>reading a variable: \<open>scope\<close> lists the tensors bound to a name at that point\<close>
  "load_name scope name =
     (case map_of scope name of None \<Rightarrow> Inl (NameError name) | Some v \<Rightarrow> Inr v)"

section \<open>The reconstruction terms\<close>

text \<open>
  Lines 41 to 45 of \<^verbatim>\<open>VQLPIPS.forward\<close> and lines 109 to 113 of
  \<^verbatim>\<open>VQLPIPSWithDiscriminator.forward\<close> are the same text; each function below is one of
  these lines, evaluated left to right.
\<close>

fun tensor_of :: "pyobj \<Rightarrow> error + tensor" where
  "tensor_of (PyTensor t) = Inr t"
| "tensor_of (PyTuple ts) = Inl TypeError"

definition loglogitlaplace_loss :: "tensor \<Rightarrow> tensor \<Rightarrow> tensor \<Rightarrow> error + tensor" where
  \<comment> \<open>\<^verbatim>\<open>((mu - logit_inputs).abs() / log_sigma.exp() + log_sigma).mean()\<close>\<close>
  "loglogitlaplace_loss mu log_sigma logit_inputs =
     and_then (bop (-) mu logit_inputs) (\<lambda>d.
     and_then (bop (/) (t_abs d) (t_exp log_sigma)) (\<lambda>q.
     and_then (bop (+) q log_sigma) (\<lambda>s.
     Inr (t_mean s))))"

definition loggaussian_loss :: "tensor \<Rightarrow> tensor \<Rightarrow> error + tensor" where
  \<comment> \<open>\<^verbatim>\<open>(mu.sigmoid() - logit_inputs.sigmoid()).pow(2).mean()\<close>\<close>
  "loggaussian_loss mu logit_inputs =
     and_then (bop (-) (t_sigmoid mu) (t_sigmoid logit_inputs)) (\<lambda>d.
     Inr (t_mean (t_pow2 d)))"

definition rescale :: "tensor \<Rightarrow> tensor" where
  \<comment> \<open>\<^verbatim>\<open>t*2-1\<close>\<close>
  "rescale t = pointwise (\<lambda>x. x - 1) (pointwise (\<lambda>x. x * 2) t)"

definition perceptual_loss :: "nn_module \<Rightarrow> tensor \<Rightarrow> tensor \<Rightarrow> error + tensor" where
  \<comment> \<open>\<^verbatim>\<open>self.perceptual_loss(mu.sigmoid()*2-1, logit_inputs.sigmoid()*2-1).mean()\<close>\<close>
  "perceptual_loss self mu logit_inputs =
     and_then (getattr self ''perceptual_loss'') (\<lambda>net.
     and_then (call_perceptual net (rescale (t_sigmoid mu)) (rescale (t_sigmoid logit_inputs))) (\<lambda>d.
     Inr (t_mean d)))"

definition nll_loss :: "nn_module \<Rightarrow> tensor \<Rightarrow> tensor \<Rightarrow> tensor \<Rightarrow> error + tensor" where
  \<comment> \<open>\<^verbatim>\<open>self.loglogitlaplace_weight * loglogitlaplace_loss
        + self.loggaussian_weight * loggaussian_loss
        + self.perceptual_weight * perceptual_loss\<close>\<close>
  "nll_loss self loglogitlaplace loggaussian perceptual =
     and_then (attr_number self ''loglogitlaplace_weight'') (\<lambda>w1.
     and_then (attr_number self ''loggaussian_weight'') (\<lambda>w2.
     and_then (bop (+) (pointwise ((*) w1) loglogitlaplace) (pointwise ((*) w2) loggaussian)) (\<lambda>s.
     and_then (attr_number self ''perceptual_weight'') (\<lambda>w3.
     bop (+) s (pointwise ((*) w3) perceptual)))))"

section \<open>VQLPIPS.forward\<close>

definition VQLPIPS_log :: "(string \<times> tensor) list \<Rightarrow> string option \<Rightarrow> error + log" where
  \<comment> \<open>the dictionary display of lines 48 to 54: keys and values in order\<close>
  "VQLPIPS_log scope split =
     and_then (load_name scope ''loss'') (\<lambda>v1.
     and_then (load_name scope ''codebook_loss'') (\<lambda>v2.
     and_then (load_name scope ''nll_loss'') (\<lambda>v3.
     and_then (load_name scope ''loglaplace_loss'') (\<lambda>v4.
     and_then (load_name scope ''loggaussian_loss'') (\<lambda>v5.
     and_then (load_name scope ''perceptual_loss'') (\<lambda>v6.
     Inr [(key split ''total_loss'', detach (clone v1)),
          (key split ''quant_loss'', detach v2),
          (key split ''rec_loss'', detach v3),
          (key split ''loglaplace_loss'', detach v4),
          (key split ''loggaussian_loss'', detach v5),
          (key split ''perceptual_loss'', detach v6)]))))))"

definition VQLPIPS_forward ::
  "nn_module \<Rightarrow> tensor \<Rightarrow> tensor \<Rightarrow> tensor \<Rightarrow> int \<Rightarrow> int \<Rightarrow> tensor option \<Rightarrow> string option
   \<Rightarrow> error + tensor \<times> log" where
  "VQLPIPS_forward self codebook_loss inputs outputs optimizer_idx global_step last_layer split =
     and_then (contiguous (PyTensor (t_logit (1 / 10000) inputs))) (\<lambda>obj.
     and_then (tensor_of obj) (\<lambda>logit_inputs.
     and_then (chunk 2 1 outputs) (\<lambda>parts.
     and_then (contiguous (PyTuple parts)) (\<lambda>pair.
     and_then (unpack2 pair) (\<lambda>(mu, log_sigma).
     and_then (loglogitlaplace_loss mu log_sigma logit_inputs) (\<lambda>loglogitlaplace.
     and_then (loggaussian_loss mu logit_inputs) (\<lambda>loggaussian.
     and_then (perceptual_loss self mu logit_inputs) (\<lambda>perceptual.
     and_then (nll_loss self loglogitlaplace loggaussian perceptual) (\<lambda>nll.
     and_then (attr_number self ''codebook_weight'') (\<lambda>cw.
     and_then (bop (+) nll (pointwise ((*) cw) codebook_loss)) (\<lambda>loss.
     and_then (VQLPIPS_log
                 [(''codebook_loss'', codebook_loss), (''inputs'', inputs), (''outputs'', outputs),
                  (''logit_inputs'', logit_inputs), (''mu'', mu), (''log_sigma'', log_sigma),
                  (''loglogitlaplace_loss'', loglogitlaplace), (''loggaussian_loss'', loggaussian),
                  (''perceptual_loss'', perceptual), (''nll_loss'', nll), (''loss'', loss)]
                 split) (\<lambda>log.
     Inr (loss, log)))))))))))))"

section \<open>VQLPIPSWithDiscriminator\<close>

definition calculate_adaptive_factor ::
  "nn_module \<Rightarrow> autograd \<Rightarrow> tensor \<Rightarrow> tensor \<Rightarrow> tensor option \<Rightarrow> error + tensor" where
  "calculate_adaptive_factor self grad nll g_loss last_layer =
     and_then (grad Of_nll_loss nll last_layer) (\<lambda>nll_grads.
     and_then (grad Of_g_loss g_loss last_layer) (\<lambda>g_grads.
     and_then (bop (/) (t_norm nll_grads) (pointwise (\<lambda>x. x + 1 / 10000) (t_norm g_grads)))
       (\<lambda>adapt_factor.
     Inr (detach (t_clamp 0 10000 adapt_factor)))))"

definition d_weight ::
  "nn_module \<Rightarrow> autograd \<Rightarrow> tensor \<Rightarrow> tensor \<Rightarrow> tensor option \<Rightarrow> error + tensor" where
  \<comment> \<open>the \<^verbatim>\<open>try\<close> statement of lines 118 to 125; only \<^verbatim>\<open>RuntimeError\<close> is caught\<close>
  "d_weight self grad nll g_loss last_layer =
     (case and_then (attr_number self ''adversarial_weight'') (\<lambda>w.
           and_then (attr_truthy self ''use_adaptive_adv'') (\<lambda>adaptive.
           if adaptive
           then and_then (calculate_adaptive_factor self grad nll g_loss last_layer) (\<lambda>factor.
                Inr (pointwise ((*) w) factor))
           else Inr (scalar w)))
      of
        Inl RuntimeError \<Rightarrow>
          and_then (attr_truthy self ''training'') (\<lambda>training.
          if training then Inl AssertionError else Inr (scalar 0))
      | r \<Rightarrow> r)"

definition disc_factor :: "nn_module \<Rightarrow> int \<Rightarrow> error + real" where
  \<comment> \<open>\<^verbatim>\<open>1 if global_step >= self.discriminator_iter_start else 0\<close>\<close>
  "disc_factor self global_step =
     and_then (attr_number self ''discriminator_iter_start'') (\<lambda>start.
     Inr (if start \<le> of_int global_step then 1 else 0))"

definition adversarial_term :: "real \<Rightarrow> tensor \<Rightarrow> tensor \<Rightarrow> error + tensor" where
  \<comment> \<open>\<^verbatim>\<open>disc_factor * d_weight * g_loss\<close> of line 128\<close>
  "adversarial_term factor dw g_loss = bop (*) (pointwise ((*) factor) dw) g_loss"

definition generator_log :: "(string \<times> tensor) list \<Rightarrow> string option \<Rightarrow> error + log" where
  \<comment> \<open>the dictionary display of lines 130 to 137\<close>
  "generator_log scope split =
     and_then (load_name scope ''loss'') (\<lambda>v1.
     and_then (load_name scope ''codebook_loss'') (\<lambda>v2.
     and_then (load_name scope ''nll_loss'') (\<lambda>v3.
     and_then (load_name scope ''loglaplace_loss'') (\<lambda>v4.
     and_then (load_name scope ''loggaussian_loss'') (\<lambda>v5.
     and_then (load_name scope ''perceptual_loss'') (\<lambda>v6.
     and_then (load_name scope ''g_loss'') (\<lambda>v7.
     Inr [(key split ''total_loss'', detach (clone v1)),
          (key split ''quant_loss'', detach v2),
          (key split ''rec_loss'', detach v3),
          (key split ''loglaplace_loss'', detach v4),
          (key split ''loggaussian_loss'', detach v5),
          (key split ''perceptual_loss'', detach v6),
          (key split ''g_loss'', detach v7)])))))))"

definition generator_update ::
  "nn_module \<Rightarrow> autograd \<Rightarrow> tensor \<Rightarrow> tensor \<Rightarrow> tensor \<Rightarrow> tensor \<Rightarrow> tensor \<Rightarrow> tensor \<Rightarrow> int
   \<Rightarrow> tensor option \<Rightarrow> string option \<Rightarrow> error + tensor \<times> log" where
  \<comment> \<open>lines 108 to 142, the branch \<^verbatim>\<open>optimizer_idx == 0\<close>. The key of line 140 is written
      \<^verbatim>\<open>f"{}/d_weight".format(split)\<close>, which Python refuses when it compiles the file; it is
      read here as the keys of lines 130 to 136 are written, so this branch is the source
      with that one line repaired\<close>
  "generator_update self grad codebook_loss inputs outputs logit_inputs mu log_sigma global_step
       last_layer split =
     and_then (loglogitlaplace_loss mu log_sigma logit_inputs) (\<lambda>loglogitlaplace.
     and_then (loggaussian_loss mu logit_inputs) (\<lambda>loggaussian.
     and_then (perceptual_loss self mu logit_inputs) (\<lambda>perceptual.
     and_then (nll_loss self loglogitlaplace loggaussian perceptual) (\<lambda>nll.
     and_then (getattr self ''discriminator'') (\<lambda>discriminator.
     and_then (call_net discriminator (t_sigmoid mu)) (\<lambda>logits_fake.
     and_then (getattr self ''disc_loss'') (\<lambda>disc_loss.
     and_then (call_loss disc_loss logits_fake None) (\<lambda>g_loss.
     and_then (d_weight self grad nll g_loss last_layer) (\<lambda>dw.
     and_then (disc_factor self global_step) (\<lambda>factor.
     and_then (adversarial_term factor dw g_loss) (\<lambda>adv.
     and_then (bop (+) nll adv) (\<lambda>s.
     and_then (attr_number self ''codebook_weight'') (\<lambda>cw.
     and_then (bop (+) s (pointwise ((*) cw) codebook_loss)) (\<lambda>loss.
     and_then (generator_log
                 [(''codebook_loss'', codebook_loss), (''inputs'', inputs), (''outputs'', outputs),
                  (''logit_inputs'', logit_inputs), (''mu'', mu), (''log_sigma'', log_sigma),
                  (''loglogitlaplace_loss'', loglogitlaplace), (''loggaussian_loss'', loggaussian),
                  (''perceptual_loss'', perceptual), (''nll_loss'', nll),
                  (''logits_fake'', logits_fake), (''g_loss'', g_loss), (''d_weight'', dw),
                  (''loss'', loss)]
                 split) (\<lambda>log.
     and_then (attr_truthy self ''use_adaptive_adv'') (\<lambda>adaptive.
     Inr (loss, if adaptive then AList.update (key split ''d_weight'') (detach dw) log
                else log)))))))))))))))))"

definition discriminator_update ::
  "nn_module \<Rightarrow> autograd \<Rightarrow> tensor \<Rightarrow> tensor \<Rightarrow> int \<Rightarrow> string option \<Rightarrow> error + tensor \<times> log" where
  \<comment> \<open>lines 145 to 169, the branch \<^verbatim>\<open>optimizer_idx == 1\<close>; \<^verbatim>\<open>requires_grad_\<close> keeps the value\<close>
  "discriminator_update self grad logit_inputs mu global_step split =
     (let inputs = t_sigmoid logit_inputs; outputs = t_sigmoid mu in
      and_then (getattr self ''discriminator'') (\<lambda>discriminator.
      and_then (call_net discriminator inputs) (\<lambda>logits_real.
      and_then (getattr self ''discriminator'') (\<lambda>discriminator.
      and_then (call_net discriminator (detach outputs)) (\<lambda>logits_fake.
      and_then (disc_factor self global_step) (\<lambda>factor.
      and_then (getattr self ''disc_loss'') (\<lambda>disc_loss.
      and_then (call_loss disc_loss logits_fake (Some logits_real)) (\<lambda>l.
      let d_loss = pointwise ((*) factor) l;
          log = [(key split ''disc_loss'', detach (clone d_loss)),
                 (key split ''logits_real'', t_mean (detach logits_real)),
                 (key split ''logits_fake'', t_mean (detach logits_fake))]
      in
      and_then (attr_truthy self ''training'') (\<lambda>training.
      if training \<and> global_step mod 16 = 0
      then
        and_then (grad Of_logits_real_sum (t_sum logits_real) (Some inputs)) (\<lambda>gradients.
        case shape inputs of
          [] \<Rightarrow> Inl IndexError
        | b # rest \<Rightarrow>
            and_then (view_rows b gradients) (\<lambda>gradients.
            and_then (norm_rows gradients) (\<lambda>norms.
            let gradients_norm = t_mean (t_pow2 norms) in
            and_then (iadd d_loss (pointwise (\<lambda>x. x / 2) (pointwise ((*) 10) gradients_norm)))
              (\<lambda>d_loss.
            Inr (d_loss, AList.update (key split ''r1_reg'') (detach gradients_norm) log)))))
      else Inr (d_loss, log))))))))))"

definition VQLPIPSWithDiscriminator_forward ::
  "nn_module \<Rightarrow> autograd \<Rightarrow> tensor \<Rightarrow> tensor \<Rightarrow> tensor \<Rightarrow> int \<Rightarrow> int \<Rightarrow> tensor option
   \<Rightarrow> string option \<Rightarrow> error + (tensor \<times> log) option" where
  \<comment> \<open>a call with a phase index other than 0 and 1 falls off the end and returns \<^verbatim>\<open>None\<close>\<close>
  "VQLPIPSWithDiscriminator_forward self grad codebook_loss inputs outputs optimizer_idx
       global_step last_layer split =
     and_then (contiguous (PyTensor (t_logit (1 / 10000) inputs))) (\<lambda>obj.
     and_then (tensor_of obj) (\<lambda>logit_inputs.
     and_then (chunk 2 1 outputs) (\<lambda>parts.
     and_then (contiguous (PyTuple parts)) (\<lambda>pair.
     and_then (unpack2 pair) (\<lambda>(mu, log_sigma).
     if optimizer_idx = 0
     then and_then (generator_update self grad codebook_loss inputs outputs logit_inputs mu
                      log_sigma global_step last_layer split) (\<lambda>r. Inr (Some r))
     else if optimizer_idx = 1
     then and_then (discriminator_update self grad logit_inputs mu global_step split)
            (\<lambda>r. Inr (Some r))
     else Inr None)))))"

section \<open>Tensor objects and in-place updates\<close>

text \<open>
  Whether a call changes a tensor of its caller is a question about objects, not values.
  A tensor object has a storage, a view onto it and the flag \<^verbatim>\<open>requires_grad\<close>; several
  objects can share one storage (\<^verbatim>\<open>chunk\<close>, \<^verbatim>\<open>view\<close> and \<^verbatim>\<open>detach\<close> return such objects).
  A heap lists the objects and the storages; a reference is an index into the objects.
  Every operation of \<^verbatim>\<open>forward\<close> below is the tensor function of the same name above,
  applied to the values of its operands, together with what it does to the heap: it
  allocates its result, except \<^verbatim>\<open>requires_grad_\<close> and \<^verbatim>\<open>+=\<close>, which update their first
  operand in place. The two networks and the differentiation engine compute a value from
  values, and their result is a new object.
\<close>

record tobj =
  storage :: nat
  view :: "view_step list"
  requires_grad :: bool

record heap =
  objs :: "tobj list"
  storages :: "tensor list"

definition unpiece :: "tensor \<Rightarrow> nat \<Rightarrow> nat \<Rightarrow> nat \<Rightarrow> tensor \<Rightarrow> tensor" where
  \<comment> \<open>\<open>t\<close> with the slice \<open>[off, off + len)\<close> of dimension \<open>d\<close> replaced by \<open>new\<close>\<close>
  "unpiece t d off len new =
     (let outer = prod_list (take d (shape t));
          c = shape t ! d;
          inner = prod_list (drop (Suc d) (shape t))
      in \<lparr>shape = shape t,
          elems = concat (map (\<lambda>out. take (off * inner) (block (c * inner) out (elems t))
                                     @ block (len * inner) out (elems new)
                                     @ drop ((off + len) * inner) (block (c * inner) out (elems t)))
                              [0..<outer])\<rparr>)"

fun write_step :: "view_step \<Rightarrow> tensor \<Rightarrow> tensor \<Rightarrow> tensor" where
  "write_step (Slice d off len) t new = unpiece t d off len new"
| "write_step (Select i) t new =
     (let m = prod_list (tl (shape t))
      in \<lparr>shape = shape t,
          elems = take (i * m) (elems t) @ elems new @ drop (Suc i * m) (elems t)\<rparr>)"
| "write_step (Reshape sh) t new = \<lparr>shape = shape t, elems = elems new\<rparr>"

fun apply_view :: "view_step list \<Rightarrow> tensor \<Rightarrow> tensor" where
  "apply_view [] t = t"
| "apply_view (s # v) t = apply_view v (apply_step s t)"

fun write_view :: "view_step list \<Rightarrow> tensor \<Rightarrow> tensor \<Rightarrow> tensor" where
  \<comment> \<open>the storage after \<open>new\<close> has been written through the view\<close>
  "write_view [] t new = new"
| "write_view (s # v) t new = write_step s t (write_view v (apply_step s t) new)"

definition value_at :: "heap \<Rightarrow> nat \<Rightarrow> tensor" where
  "value_at h a = apply_view (view (objs h ! a)) (storages h ! storage (objs h ! a))"

type_synonym 'a run = "heap \<Rightarrow> (error + 'a) \<times> heap"

definition result :: "'a \<Rightarrow> 'a run" where
  "result x h = (Inr x, h)"

definition lift :: "error + 'a \<Rightarrow> 'a run" where
  \<comment> \<open>a step that does not touch the heap\<close>
  "lift r h = (r, h)"

definition seq :: "'a run \<Rightarrow> ('a \<Rightarrow> 'b run) \<Rightarrow> 'b run" where
  \<comment> \<open>an exception keeps the heap as it was when it was raised\<close>
  "seq m f h = (case m h of (Inl e, h') \<Rightarrow> (Inl e, h') | (Inr x, h') \<Rightarrow> f x h')"

definition catch_RuntimeError :: "'a run \<Rightarrow> 'a run \<Rightarrow> 'a run" where
  \<comment> \<open>\<^verbatim>\<open>try: m except RuntimeError: handler\<close>\<close>
  "catch_RuntimeError m handler h =
     (case m h of (Inl RuntimeError, h') \<Rightarrow> handler h' | r \<Rightarrow> r)"

definition new_tensor :: "bool \<Rightarrow> tensor \<Rightarrow> nat run" where
  "new_tensor rg t h =
     (Inr (length (objs h)),
      \<lparr>objs = objs h @ [\<lparr>storage = length (storages h), view = [], requires_grad = rg\<rparr>],
       storages = storages h @ [t]\<rparr>)"

definition new_views :: "nat \<Rightarrow> view_step list \<Rightarrow> nat list run" where
  \<comment> \<open>one object per step, each a view onto the storage of \<open>a\<close>\<close>
  "new_views a steps h =
     (Inr [length (objs h) ..< length (objs h) + length steps],
      \<lparr>objs = objs h @ map (\<lambda>s. \<lparr>storage = storage (objs h ! a), view = view (objs h ! a) @ [s],
                                  requires_grad = requires_grad (objs h ! a)\<rparr>) steps,
       storages = storages h\<rparr>)"

definition o_new :: "bool \<Rightarrow> (heap \<Rightarrow> error + tensor) \<Rightarrow> nat run" where
  \<comment> \<open>a computation from values: it raises, or its result is a new object\<close>
  "o_new rg f h = (case f h of Inl e \<Rightarrow> (Inl e, h) | Inr t \<Rightarrow> new_tensor rg t h)"

definition o_apply :: "(tensor \<Rightarrow> tensor) \<Rightarrow> nat \<Rightarrow> nat run" where
  "o_apply f a h = new_tensor (requires_grad (objs h ! a)) (f (value_at h a)) h"

definition o_bop :: "(real \<Rightarrow> real \<Rightarrow> real) \<Rightarrow> nat \<Rightarrow> nat \<Rightarrow> nat run" where
  "o_bop f a b h =
     o_new (requires_grad (objs h ! a) \<or> requires_grad (objs h ! b))
       (\<lambda>h. bop f (value_at h a) (value_at h b)) h"

definition o_detach :: "nat \<Rightarrow> nat run" where
  \<comment> \<open>a new object on the same storage that does not require gradients\<close>
  "o_detach a h =
     (Inr (length (objs h)),
      \<lparr>objs = objs h @ [\<lparr>storage = storage (objs h ! a), view = view (objs h ! a),
                          requires_grad = False\<rparr>],
       storages = storages h\<rparr>)"

definition o_clone :: "nat \<Rightarrow> nat run" where
  "o_clone a = o_apply clone a"

definition o_requires_grad :: "nat \<Rightarrow> unit run" where
  \<comment> \<open>\<^verbatim>\<open>a.requires_grad_()\<close> sets the flag of the object itself\<close>
  "o_requires_grad a h =
     (Inr (),
      \<lparr>objs = (objs h)[a := \<lparr>storage = storage (objs h ! a), view = view (objs h ! a),
                             requires_grad = True\<rparr>],
       storages = storages h\<rparr>)"

definition o_iadd :: "nat \<Rightarrow> nat \<Rightarrow> nat run" where
  \<comment> \<open>\<^verbatim>\<open>a += b\<close> writes the sum into the storage of \<open>a\<close>, through its view\<close>
  "o_iadd a b h =
     (case iadd (value_at h a) (value_at h b) of
        Inl e \<Rightarrow> (Inl e, h)
      | Inr t \<Rightarrow>
          (Inr a,
           \<lparr>objs = objs h,
            storages = (storages h)[storage (objs h ! a) :=
              write_view (view (objs h ! a)) (storages h ! storage (objs h ! a)) t]\<rparr>))"

definition o_chunk :: "nat \<Rightarrow> nat \<Rightarrow> nat \<Rightarrow> nat list run" where
  "o_chunk chunks d a h =
     (case chunk_steps chunks d (shape (value_at h a)) of
        Inl e \<Rightarrow> (Inl e, h)
      | Inr steps \<Rightarrow> new_views a steps h)"

definition o_view_rows :: "nat \<Rightarrow> nat \<Rightarrow> nat run" where
  "o_view_rows b a h =
     (case rows_step b (value_at h a) of
        Inl e \<Rightarrow> (Inl e, h)
      | Inr s \<Rightarrow> seq (new_views a [s]) (\<lambda>vs. result (hd vs)) h)"

definition o_shape0 :: "nat \<Rightarrow> nat run" where
  \<comment> \<open>\<^verbatim>\<open>a.shape[0]\<close>\<close>
  "o_shape0 a h = (case shape (value_at h a) of [] \<Rightarrow> (Inl IndexError, h) | b # rest \<Rightarrow> (Inr b, h))"

datatype pyref = RTensor nat | RTuple "nat list"

fun o_contiguous :: "pyref \<Rightarrow> pyref run" where
  \<comment> \<open>a tensor that owns its storage is returned as it is; a view is copied\<close>
  "o_contiguous (RTensor a) =
     (\<lambda>h. if view (objs h ! a) = [] then (Inr (RTensor a), h)
          else seq (o_apply (\<lambda>t. t) a) (\<lambda>c. result (RTensor c)) h)"
| "o_contiguous (RTuple as) = lift (Inl (AttributeError ''contiguous''))"

fun o_tensor_of :: "pyref \<Rightarrow> nat run" where
  "o_tensor_of (RTensor a) = result a"
| "o_tensor_of (RTuple as) = lift (Inl TypeError)"

fun o_items :: "pyref \<Rightarrow> nat list run" where
  "o_items (RTuple as) = result as"
| "o_items (RTensor a) =
     (\<lambda>h. case shape (value_at h a) of
            [] \<Rightarrow> (Inl TypeError, h)
          | n # rest \<Rightarrow> new_views a (map Select [0..<n]) h)"

definition o_unpack2 :: "pyref \<Rightarrow> (nat \<times> nat) run" where
  "o_unpack2 ref =
     seq (o_items ref) (\<lambda>as. case as of [a, b] \<Rightarrow> result (a, b) | _ \<Rightarrow> lift (Inl ValueError))"

subsection \<open>The reconstruction terms on objects\<close>

definition o_loglogitlaplace_loss :: "nat \<Rightarrow> nat \<Rightarrow> nat \<Rightarrow> nat run" where
  "o_loglogitlaplace_loss mu log_sigma logit_inputs =
     seq (o_bop (-) mu logit_inputs) (\<lambda>d.
     seq (o_apply t_abs d) (\<lambda>a.
     seq (o_apply t_exp log_sigma) (\<lambda>e.
     seq (o_bop (/) a e) (\<lambda>q.
     seq (o_bop (+) q log_sigma) (\<lambda>s.
     o_apply t_mean s)))))"

definition o_loggaussian_loss :: "nat \<Rightarrow> nat \<Rightarrow> nat run" where
  "o_loggaussian_loss mu logit_inputs =
     seq (o_apply t_sigmoid mu) (\<lambda>sm.
     seq (o_apply t_sigmoid logit_inputs) (\<lambda>sl.
     seq (o_bop (-) sm sl) (\<lambda>d.
     seq (o_apply t_pow2 d) (\<lambda>p.
     o_apply t_mean p))))"

definition o_rescale :: "nat \<Rightarrow> nat run" where
  "o_rescale a =
     seq (o_apply (pointwise (\<lambda>x. x * 2)) a) (\<lambda>d.
     o_apply (pointwise (\<lambda>x. x - 1)) d)"

definition o_perceptual_loss :: "nn_module \<Rightarrow> nat \<Rightarrow> nat \<Rightarrow> nat run" where
  "o_perceptual_loss self mu logit_inputs =
     seq (lift (getattr self ''perceptual_loss'')) (\<lambda>net.
     seq (o_apply t_sigmoid mu) (\<lambda>sm.
     seq (o_rescale sm) (\<lambda>x.
     seq (o_apply t_sigmoid logit_inputs) (\<lambda>sl.
     seq (o_rescale sl) (\<lambda>y.
     seq (o_new True (\<lambda>h. call_perceptual net (value_at h x) (value_at h y))) (\<lambda>d.
     o_apply t_mean d))))))"

definition o_nll_loss :: "nn_module \<Rightarrow> nat \<Rightarrow> nat \<Rightarrow> nat \<Rightarrow> nat run" where
  "o_nll_loss self loglogitlaplace loggaussian perceptual =
     seq (lift (attr_number self ''loglogitlaplace_weight'')) (\<lambda>w1.
     seq (o_apply (pointwise ((*) w1)) loglogitlaplace) (\<lambda>t1.
     seq (lift (attr_number self ''loggaussian_weight'')) (\<lambda>w2.
     seq (o_apply (pointwise ((*) w2)) loggaussian) (\<lambda>t2.
     seq (o_bop (+) t1 t2) (\<lambda>s.
     seq (lift (attr_number self ''perceptual_weight'')) (\<lambda>w3.
     seq (o_apply (pointwise ((*) w3)) perceptual) (\<lambda>t3.
     o_bop (+) s t3)))))))"

subsection \<open>VQLPIPSWithDiscriminator on objects\<close>

definition o_grad :: "autograd \<Rightarrow> bool \<Rightarrow> grad_request \<Rightarrow> nat \<Rightarrow> nat option \<Rightarrow> nat run" where
  "o_grad grad rg request out wrt =
     o_new rg (\<lambda>h. grad request (value_at h out) (map_option (value_at h) wrt))"

definition o_calculate_adaptive_factor ::
  "nn_module \<Rightarrow> autograd \<Rightarrow> nat \<Rightarrow> nat \<Rightarrow> nat option \<Rightarrow> nat run" where
  "o_calculate_adaptive_factor self grad nll g_loss last_layer =
     seq (o_grad grad False Of_nll_loss nll last_layer) (\<lambda>nll_grads.
     seq (o_grad grad False Of_g_loss g_loss last_layer) (\<lambda>g_grads.
     seq (o_apply t_norm nll_grads) (\<lambda>n1.
     seq (o_apply t_norm g_grads) (\<lambda>n2.
     seq (o_apply (pointwise (\<lambda>x. x + 1 / 10000)) n2) (\<lambda>n3.
     seq (o_bop (/) n1 n3) (\<lambda>adapt_factor.
     seq (o_apply (t_clamp 0 10000) adapt_factor) (\<lambda>c.
     o_detach c)))))))"

datatype weight = WFloat real | WTensor nat

definition o_d_weight ::
  "nn_module \<Rightarrow> autograd \<Rightarrow> nat \<Rightarrow> nat \<Rightarrow> nat option \<Rightarrow> weight run" where
  \<comment> \<open>\<^verbatim>\<open>d_weight\<close> is the Python float \<^verbatim>\<open>self.adversarial_weight\<close>, or a tensor object\<close>
  "o_d_weight self grad nll g_loss last_layer =
     catch_RuntimeError
       (seq (lift (attr_number self ''adversarial_weight'')) (\<lambda>w.
        seq (lift (attr_truthy self ''use_adaptive_adv'')) (\<lambda>adaptive.
        if adaptive
        then seq (o_calculate_adaptive_factor self grad nll g_loss last_layer) (\<lambda>factor.
             seq (o_apply (pointwise ((*) w)) factor) (\<lambda>d.
             result (WTensor d)))
        else result (WFloat w))))
       (seq (lift (attr_truthy self ''training'')) (\<lambda>training.
        if training then lift (Inl AssertionError)
        else seq (new_tensor False (scalar 0)) (\<lambda>z. result (WTensor z))))"

definition o_adversarial_term :: "real \<Rightarrow> weight \<Rightarrow> nat \<Rightarrow> nat run" where
  \<comment> \<open>\<^verbatim>\<open>disc_factor * d_weight * g_loss\<close>\<close>
  "o_adversarial_term factor dw g_loss =
     (case dw of
        WFloat w \<Rightarrow> o_apply (pointwise ((*) (factor * w))) g_loss
      | WTensor d \<Rightarrow> seq (o_apply (pointwise ((*) factor)) d) (\<lambda>fd. o_bop (*) fd g_loss))"

definition o_weight_detach :: "weight \<Rightarrow> nat run" where
  \<comment> \<open>\<^verbatim>\<open>d_weight.detach()\<close>\<close>
  "o_weight_detach dw =
     (case dw of WFloat w \<Rightarrow> lift (Inl (AttributeError ''detach'')) | WTensor d \<Rightarrow> o_detach d)"

definition o_generator_log :: "(string \<times> nat) list \<Rightarrow> string option \<Rightarrow> (string \<times> nat) list run" where
  "o_generator_log scope split =
     seq (lift (load_name scope ''loss'')) (\<lambda>a1.
     seq (o_clone a1) (\<lambda>c1.
     seq (o_detach c1) (\<lambda>v1.
     seq (lift (load_name scope ''codebook_loss'')) (\<lambda>a2.
     seq (o_detach a2) (\<lambda>v2.
     seq (lift (load_name scope ''nll_loss'')) (\<lambda>a3.
     seq (o_detach a3) (\<lambda>v3.
     seq (lift (load_name scope ''loglaplace_loss'')) (\<lambda>a4.
     seq (o_detach a4) (\<lambda>v4.
     seq (lift (load_name scope ''loggaussian_loss'')) (\<lambda>a5.
     seq (o_detach a5) (\<lambda>v5.
     seq (lift (load_name scope ''perceptual_loss'')) (\<lambda>a6.
     seq (o_detach a6) (\<lambda>v6.
     seq (lift (load_name scope ''g_loss'')) (\<lambda>a7.
     seq (o_detach a7) (\<lambda>v7.
     result [(key split ''total_loss'', v1), (key split ''quant_loss'', v2),
             (key split ''rec_loss'', v3), (key split ''loglaplace_loss'', v4),
             (key split ''loggaussian_loss'', v5), (key split ''perceptual_loss'', v6),
             (key split ''g_loss'', v7)])))))))))))))))"

definition o_generator_update ::
  "nn_module \<Rightarrow> autograd \<Rightarrow> nat \<Rightarrow> nat \<Rightarrow> nat \<Rightarrow> nat \<Rightarrow> nat \<Rightarrow> nat \<Rightarrow> int \<Rightarrow> nat option
   \<Rightarrow> string option \<Rightarrow> (nat \<times> (string \<times> nat) list) run" where
  \<comment> \<open>the scope of the log lists the names bound to tensor objects; line 140 is read as in
      \<open>generator_update\<close>\<close>
  "o_generator_update self grad codebook_loss inputs outputs logit_inputs mu log_sigma
       global_step last_layer split =
     seq (o_loglogitlaplace_loss mu log_sigma logit_inputs) (\<lambda>loglogitlaplace.
     seq (o_loggaussian_loss mu logit_inputs) (\<lambda>loggaussian.
     seq (o_perceptual_loss self mu logit_inputs) (\<lambda>perceptual.
     seq (o_nll_loss self loglogitlaplace loggaussian perceptual) (\<lambda>nll.
     seq (lift (getattr self ''discriminator'')) (\<lambda>discriminator.
     seq (o_apply t_sigmoid mu) (\<lambda>sm.
     seq (o_new True (\<lambda>h. call_net discriminator (value_at h sm))) (\<lambda>logits_fake.
     seq (lift (getattr self ''disc_loss'')) (\<lambda>disc_loss.
     seq (o_new True (\<lambda>h. call_loss disc_loss (value_at h logits_fake) None)) (\<lambda>g_loss.
     seq (o_d_weight self grad nll g_loss last_layer) (\<lambda>dw.
     seq (lift (disc_factor self global_step)) (\<lambda>factor.
     seq (o_adversarial_term factor dw g_loss) (\<lambda>adv.
     seq (o_bop (+) nll adv) (\<lambda>s.
     seq (lift (attr_number self ''codebook_weight'')) (\<lambda>cw.
     seq (o_apply (pointwise ((*) cw)) codebook_loss) (\<lambda>c.
     seq (o_bop (+) s c) (\<lambda>loss.
     seq (o_generator_log
            [(''codebook_loss'', codebook_loss), (''inputs'', inputs), (''outputs'', outputs),
             (''logit_inputs'', logit_inputs), (''mu'', mu), (''log_sigma'', log_sigma),
             (''loglogitlaplace_loss'', loglogitlaplace), (''loggaussian_loss'', loggaussian),
             (''perceptual_loss'', perceptual), (''nll_loss'', nll),
             (''logits_fake'', logits_fake), (''g_loss'', g_loss), (''loss'', loss)]
            split) (\<lambda>entries.
     seq (lift (attr_truthy self ''use_adaptive_adv'')) (\<lambda>adaptive.
     if adaptive
     then seq (o_weight_detach dw) (\<lambda>v.
          result (loss, AList.update (key split ''d_weight'') v entries))
     else result (loss, entries)))))))))))))))))))"

definition o_discriminator_update ::
  "nn_module \<Rightarrow> autograd \<Rightarrow> nat \<Rightarrow> nat \<Rightarrow> int \<Rightarrow> string option
   \<Rightarrow> (nat \<times> (string \<times> nat) list) run" where
  "o_discriminator_update self grad logit_inputs mu global_step split =
     seq (o_apply t_sigmoid logit_inputs) (\<lambda>inputs.
     seq (o_apply t_sigmoid mu) (\<lambda>outputs.
     seq (o_requires_grad inputs) (\<lambda>u.
     seq (lift (getattr self ''discriminator'')) (\<lambda>discriminator.
     seq (o_new True (\<lambda>h. call_net discriminator (value_at h inputs))) (\<lambda>logits_real.
     seq (lift (getattr self ''discriminator'')) (\<lambda>discriminator.
     seq (o_detach outputs) (\<lambda>detached.
     seq (o_new True (\<lambda>h. call_net discriminator (value_at h detached))) (\<lambda>logits_fake.
     seq (lift (disc_factor self global_step)) (\<lambda>factor.
     seq (lift (getattr self ''disc_loss'')) (\<lambda>disc_loss.
     seq (o_new True (\<lambda>h. call_loss disc_loss (value_at h logits_fake)
                             (Some (value_at h logits_real)))) (\<lambda>l.
     seq (o_apply (pointwise ((*) factor)) l) (\<lambda>d_loss.
     seq (o_clone d_loss) (\<lambda>c.
     seq (o_detach c) (\<lambda>v1.
     seq (o_detach logits_real) (\<lambda>dr.
     seq (o_apply t_mean dr) (\<lambda>v2.
     seq (o_detach logits_fake) (\<lambda>df.
     seq (o_apply t_mean df) (\<lambda>v3.
     seq (result [(key split ''disc_loss'', v1), (key split ''logits_real'', v2),
                  (key split ''logits_fake'', v3)]) (\<lambda>entries.
     seq (lift (attr_truthy self ''training'')) (\<lambda>training.
     if training \<and> global_step mod 16 = 0
     then
       seq (o_apply t_sum logits_real) (\<lambda>total.
       seq (o_grad grad True Of_logits_real_sum total (Some inputs)) (\<lambda>gradients.
       seq (o_shape0 inputs) (\<lambda>b.
       seq (o_view_rows b gradients) (\<lambda>gradients.
       seq (o_new True (\<lambda>h. norm_rows (value_at h gradients))) (\<lambda>norms.
       seq (o_apply t_pow2 norms) (\<lambda>squares.
       seq (o_apply t_mean squares) (\<lambda>gradients_norm.
       seq (o_apply (pointwise ((*) 10)) gradients_norm) (\<lambda>t10.
       seq (o_apply (pointwise (\<lambda>x. x / 2)) t10) (\<lambda>penalty.
       seq (o_iadd d_loss penalty) (\<lambda>d_loss.
       seq (o_detach gradients_norm) (\<lambda>v4.
       result (d_loss, AList.update (key split ''r1_reg'') v4 entries))))))))))))
     else result (d_loss, entries)))))))))))))))))))))"

definition o_forward ::
  "nn_module \<Rightarrow> autograd \<Rightarrow> nat \<Rightarrow> nat \<Rightarrow> nat \<Rightarrow> int \<Rightarrow> int \<Rightarrow> nat option \<Rightarrow> string option
   \<Rightarrow> (nat \<times> (string \<times> nat) list) option run" where
  \<comment> \<open>\<^verbatim>\<open>VQLPIPSWithDiscriminator.forward\<close>; the arguments are references to the caller's tensors\<close>
  "o_forward self grad codebook_loss inputs outputs optimizer_idx global_step last_layer split =
     seq (o_apply (t_logit (1 / 10000)) inputs) (\<lambda>logit.
     seq (o_contiguous (RTensor logit)) (\<lambda>ref.
     seq (o_tensor_of ref) (\<lambda>logit_inputs.
     seq (o_chunk 2 1 outputs) (\<lambda>parts.
     seq (o_contiguous (RTuple parts)) (\<lambda>pair.
     seq (o_unpack2 pair) (\<lambda>(mu, log_sigma).
     if optimizer_idx = 0
     then seq (o_generator_update self grad codebook_loss inputs outputs logit_inputs mu
                 log_sigma global_step last_layer split) (\<lambda>r. result (Some r))
     else if optimizer_idx = 1
     then seq (o_discriminator_update self grad logit_inputs mu global_step split)
            (\<lambda>r. result (Some r))
     else result None))))))"

subsection \<open>What a call leaves as it was\<close>

definition unchanged :: "heap \<Rightarrow> heap \<Rightarrow> bool" where
  \<comment> \<open>every object and every storage of \<open>h\<close> is in \<open>h'\<close>, at its place and as it was\<close>
  "unchanged h h' =
     (take (length (objs h)) (objs h') = objs h
      \<and> take (length (storages h)) (storages h') = storages h)"

definition own :: "heap \<Rightarrow> heap \<Rightarrow> nat \<Rightarrow> bool" where
  \<comment> \<open>the object \<open>a\<close> of \<open>h\<close> and its storage were allocated after \<open>h0\<close>\<close>
  "own h0 h a =
     (length (objs h0) \<le> a \<and> a < length (objs h)
      \<and> length (storages h0) \<le> storage (objs h ! a))"

definition keeps :: "heap \<Rightarrow> nat set \<Rightarrow> 'a run \<Rightarrow> ('a \<Rightarrow> nat set) \<Rightarrow> bool" where
  \<comment> \<open>run from any heap that leaves \<open>h0\<close> unchanged and in which the objects \<open>owned\<close> are
      new, \<open>m\<close> leaves \<open>h0\<close> unchanged and these objects new, and so are the objects
      \<open>new x\<close> of its result \<open>x\<close>\<close>
  "keeps h0 owned m new =
     (\<forall>h. unchanged h0 h \<and> (\<forall>a \<in> owned. own h0 h a) \<longrightarrow>
        unchanged h0 (snd (m h)) \<and> (\<forall>a \<in> owned. own h0 (snd (m h)) a)
        \<and> (\<forall>x. fst (m h) = Inr x \<longrightarrow> (\<forall>a \<in> new x. own h0 (snd (m h)) a)))"

section \<open>Concrete inputs\<close>

text \<open>
  The inputs of the scenarios: a constant 0.5 image with three channels, a generator output
  of zeros with six channels, a perceptual network that answers distance zero, an engine
  for calls made while gradients are not tracked, and two discriminators, each with the
  differentiation engine that goes with it: one that answers zero logits, from whose
  output no gradient path leads anywhere, and one that sums the values of each image.
  These two engines are asked for the gradient of a loss by a tensor; asked without a
  tensor (\<^verbatim>\<open>last_layer=None\<close>) they raise \<^verbatim>\<open>TypeError\<close>.
\<close>

definition the_module :: "error + nn_module \<Rightarrow> nn_module" where
  "the_module r = (case r of Inl e \<Rightarrow> Map.empty | Inr m \<Rightarrow> m)"

definition is_scalar :: "tensor \<Rightarrow> bool" where
  "is_scalar t = (shape t = [] \<and> length (elems t) = 1)"

definition item :: "tensor \<Rightarrow> real" where
  \<comment> \<open>the value of a tensor with one element\<close>
  "item t = hd (elems t)"

definition half_image :: tensor where
  "half_image = \<lparr>shape = [1, 3, 1, 1], elems = [1 / 2, 1 / 2, 1 / 2]\<rparr>"

definition quarter_image :: tensor where
  "quarter_image = \<lparr>shape = [1, 3, 1, 1], elems = [1 / 4, 1 / 2, 3 / 4]\<rparr>"

definition zero_outputs :: tensor where
  "zero_outputs = \<lparr>shape = [1, 6, 1, 1], elems = [0, 0, 0, 0, 0, 0]\<rparr>"

definition zeros3 :: tensor where
  "zeros3 = \<lparr>shape = [1, 3, 1, 1], elems = [0, 0, 0]\<rparr>"

definition zero_logits :: "tensor \<Rightarrow> error + tensor" where
  "zero_logits x = Inr \<lparr>shape = [1, 1], elems = [0]\<rparr>"

definition two_logits :: "tensor \<Rightarrow> error + tensor" where
  "two_logits x = Inr \<lparr>shape = [1, 2], elems = [2, 4]\<rparr>"

definition no_distance :: "tensor \<Rightarrow> tensor \<Rightarrow> error + tensor" where
  "no_distance x y = Inr \<lparr>shape = [1, 1, 1, 1], elems = [0]\<rparr>"

definition no_grad_path :: autograd where
  \<comment> \<open>gradients are not being tracked: every request raises\<close>
  "no_grad_path request out wrt = Inl RuntimeError"

definition full_like :: "tensor \<Rightarrow> real \<Rightarrow> tensor" where
  \<comment> \<open>a tensor of the shape of \<open>x\<close> with every element \<open>c\<close>\<close>
  "full_like x c = \<lparr>shape = shape x, elems = map (\<lambda>v. c) (elems x)\<rparr>"

definition small_nll_grads :: autograd where
  \<comment> \<open>the engine that goes with the discriminator \<open>zero_logits\<close>: the reconstruction loss has
      slope 1/2 in every element of the tensor it is differentiated by; the discriminator's
      output is a constant, so a gradient of the adversarial loss or of the real logits has
      no path and the request raises\<close>
  "small_nll_grads request out wrt =
     (case wrt of
        None \<Rightarrow> Inl TypeError
      | Some x \<Rightarrow>
          (case request of
             Of_nll_loss \<Rightarrow> Inr (full_like x (1 / 2))
           | Of_g_loss \<Rightarrow> Inl RuntimeError
           | Of_logits_real_sum \<Rightarrow> Inl RuntimeError))"

definition sum_logits :: "tensor \<Rightarrow> error + tensor" where
  \<comment> \<open>a discriminator with one logit for each image of the batch: the sum of its values\<close>
  "sum_logits x =
     (case shape x of
        [] \<Rightarrow> Inl RuntimeError
      | b # rest \<Rightarrow>
          Inr \<lparr>shape = [b, 1],
               elems = map (\<lambda>i. sum_list (elems (apply_step (Select i) x))) [0..<b]\<rparr>)"

definition linear_grads :: autograd where
  \<comment> \<open>the engine that goes with the discriminator \<open>sum_logits\<close>: the sum of the real logits
      has slope 1 in every value of the image; behind a generator in whose last layer the
      reconstruction loss has slope 1/2 and the adversarial loss slope 1\<close>
  "linear_grads request out wrt =
     (case wrt of
        None \<Rightarrow> Inl TypeError
      | Some x \<Rightarrow>
          Inr (full_like x (case request of
                              Of_nll_loss \<Rightarrow> 1 / 2
                            | Of_g_loss \<Rightarrow> 1
                            | Of_logits_real_sum \<Rightarrow> 1)))"

definition hinge_module :: "int \<Rightarrow> real \<Rightarrow> bool \<Rightarrow> nn_module" where
  \<comment> \<open>\<^verbatim>\<open>VQLPIPSWithDiscriminator(disc_start, adversarial_weight=w, use_adaptive_adv=a)\<close>, the
      other arguments at their defaults\<close>
  "hinge_module disc_start w a =
     the_module (VQLPIPSWithDiscriminator_init no_distance zero_logits disc_start ''hinge''
                   1 1 1 1 w a)"

definition summing_module :: "int \<Rightarrow> real \<Rightarrow> bool \<Rightarrow> nn_module" where
  \<comment> \<open>the same with the discriminator \<open>sum_logits\<close>\<close>
  "summing_module disc_start w a =
     the_module (VQLPIPSWithDiscriminator_init no_distance sum_logits disc_start ''hinge''
                   1 1 1 1 w a)"

definition caller_heap :: heap where
  \<comment> \<open>the caller's \<open>codebook_loss\<close>, \<open>inputs\<close> and \<open>outputs\<close>, each with its own storage\<close>
  "caller_heap =
     \<lparr>objs = [\<lparr>storage = 0, view = [], requires_grad = False\<rparr>,
              \<lparr>storage = 1, view = [], requires_grad = False\<rparr>,
              \<lparr>storage = 2, view = [], requires_grad = True\<rparr>],
      storages = [scalar 1, half_image, zero_outputs]\<rparr>"

section \<open>Basic facts\<close>

lemma and_then_Inr_iff: "and_then m f = Inr y \<longleftrightarrow> (\<exists>x. m = Inr x \<and> f x = Inr y)"
  by (cases m) simp_all

lemma pointwise_scalar: "pointwise f (scalar x) = scalar (f x)"
  by (simp add: pointwise_def scalar_def)

lemma bop_scalar: "bop f (scalar x) (scalar y) = Inr (scalar (f x y))"
  by (simp add: bop_def scalar_def broadcast_shapes_def expand_to_def)

lemma iadd_scalar: "iadd (scalar x) (scalar y) = Inr (scalar (x + y))"
  by (simp add: iadd_def scalar_def broadcast_shapes_def expand_to_def)

lemma t_mean_mean_of: "t_mean t = scalar (mean_of t)"
  by (simp add: t_mean_def mean_of_def)

lemma scalar_item: "is_scalar t \<Longrightarrow> t = scalar (item t)"
  by (cases t) (auto simp add: is_scalar_def scalar_def item_def length_Suc_conv)

lemma sum_squares_nonneg: "0 \<le> sum_list (map (\<lambda>x::real. x\<^sup>2) xs)"
  by (induction xs) auto

lemma l2_nonneg: "0 \<le> l2 xs"
  by (simp add: l2_def sum_squares_nonneg)

section \<open>Every call of forward raises\<close>

lemma chunk_returns_tuple:
  "chunk 2 1 t = Inl RuntimeError \<or> chunk 2 1 t = Inl IndexError
   \<or> (\<exists>parts. chunk 2 1 t = Inr parts)"
  by (simp add: chunk_def chunk_steps_def Let_def)

lemma forward_raises:
  "VQLPIPSWithDiscriminator_forward self grad codebook_loss inputs outputs optimizer_idx
       global_step last_layer split =
     Inl (if shape outputs = [] then RuntimeError
          else if length (shape outputs) \<le> 1 then IndexError
          else AttributeError ''contiguous'')"
  by (simp add: VQLPIPSWithDiscriminator_forward_def chunk_def chunk_steps_def Let_def)

lemma VQLPIPS_forward_raises:
  "VQLPIPS_forward self codebook_loss inputs outputs optimizer_idx global_step last_layer split =
     Inl (if shape outputs = [] then RuntimeError
          else if length (shape outputs) \<le> 1 then IndexError
          else AttributeError ''contiguous'')"
  by (simp add: VQLPIPS_forward_def chunk_def chunk_steps_def Let_def)

section \<open>The constructed module\<close>

lemma init_attrs:
  assumes "VQLPIPSWithDiscriminator_init lp D ds dl cw lw gw pw aw ad = Inr m"
  shows "getattr (set_training tr m) ''discriminator'' = Inr (ANet D)"
    and "attr_number (set_training tr m) ''discriminator_iter_start'' = Inr (of_int ds)"
    and "attr_number (set_training tr m) ''adversarial_weight'' = Inr aw"
    and "attr_number (set_training tr m) ''codebook_weight'' = Inr cw"
    and "attr_truthy (set_training tr m) ''use_adaptive_adv'' = Inr ad"
    and "attr_truthy (set_training tr m) ''training'' = Inr tr"
    and "attr_number (set_training tr m) ''loglogitlaplace_weight''
           = Inl (AttributeError ''loglogitlaplace_weight'')"
  using assms
  by (auto simp add: VQLPIPSWithDiscriminator_init_def getattr_def attr_number_def attr_truthy_def
       set_training_def split: if_splits)

lemma variants_scalar:
  "is_scalar (hinge_d_loss x y)" "is_scalar (vanilla_d_loss x y)"
  "is_scalar (least_square_d_loss x y)"
  by (cases y; simp add: is_scalar_def scalar_def hinge_d_loss_def vanilla_d_loss_def
        least_square_d_loss_def)+

lemma init_disc_loss:
  assumes "VQLPIPSWithDiscriminator_init lp D ds dl cw lw gw pw aw ad = Inr m"
  shows "\<exists>L. getattr (set_training tr m) ''disc_loss'' = Inr (ALoss L) \<and> (\<forall>x y. is_scalar (L x y))"
  using assms
  by (auto simp add: VQLPIPSWithDiscriminator_init_def getattr_def set_training_def variants_scalar
       split: if_splits)

lemma hinge_module_init:
  "VQLPIPSWithDiscriminator_init no_distance zero_logits ds ''hinge'' 1 1 1 1 w a
     = Inr (hinge_module ds w a)"
  by (simp add: hinge_module_def the_module_def VQLPIPSWithDiscriminator_init_def)

lemma summing_module_init:
  "VQLPIPSWithDiscriminator_init no_distance sum_logits ds ''hinge'' 1 1 1 1 w a
     = Inr (summing_module ds w a)"
  by (simp add: summing_module_def the_module_def VQLPIPSWithDiscriminator_init_def)

section \<open>The generator branch\<close>

lemma nll_loss_raises:
  assumes "VQLPIPSWithDiscriminator_init lp D ds dl cw lw gw pw aw ad = Inr m"
  shows "nll_loss (set_training tr m) x y z = Inl (AttributeError ''loglogitlaplace_weight'')"
  by (simp add: nll_loss_def init_attrs [OF assms])

lemma VQLPIPS_nll_loss_raises:
  "nll_loss (set_training tr (VQLPIPS_init lp cw lw gw pw)) x y z
     = Inl (AttributeError ''loglogitlaplace_weight'')"
  by (simp add: nll_loss_def attr_number_def getattr_def VQLPIPS_init_def set_training_def)

lemma generator_update_raises:
  assumes "VQLPIPSWithDiscriminator_init lp D ds dl cw lw gw pw aw ad = Inr m"
  shows "generator_update (set_training tr m) grad codebook_loss inputs outputs logit_inputs mu
           log_sigma global_step last_layer split \<noteq> Inr r"
  by (auto simp add: generator_update_def and_then_Inr_iff nll_loss_raises [OF assms])

lemma generator_log_raises:
  "map_of scope ''loglaplace_loss'' = None \<Longrightarrow> generator_log scope split = Inl e
     \<Longrightarrow> e \<in> {NameError ''loss'', NameError ''codebook_loss'', NameError ''nll_loss'',
              NameError ''loglaplace_loss''}"
  by (auto simp add: generator_log_def load_name_def split: option.splits)

lemma generator_log_never_returns:
  "map_of scope ''loglaplace_loss'' = None \<Longrightarrow> generator_log scope split \<noteq> Inr entries"
  by (auto simp add: generator_log_def load_name_def and_then_Inr_iff split: option.splits)

section \<open>The adaptive weight\<close>

lemma adaptive_factor_value:
  assumes "grad Of_nll_loss nll last_layer = Inr nll_grads"
      and "grad Of_g_loss g_loss last_layer = Inr g_grads"
  shows "calculate_adaptive_factor self grad nll g_loss last_layer =
           Inr (scalar (clamp 0 10000 (l2 (elems nll_grads) / (l2 (elems g_grads) + 1 / 10000))))"
  by (simp add: calculate_adaptive_factor_def assms t_norm_def pointwise_scalar bop_scalar
        t_clamp_def detach_def)

lemma adaptive_factor_raises:
  "grad Of_nll_loss nll last_layer = Inl e \<Longrightarrow>
     calculate_adaptive_factor self grad nll g_loss last_layer = Inl e"
  by (simp add: calculate_adaptive_factor_def)

lemma clamp_bounds: "0 \<le> clamp 0 10000 x \<and> clamp 0 10000 x \<le> 10000"
  by (simp add: clamp_def)

lemma clamp_saturates_iff:
  assumes "0 \<le> g"
  shows "(clamp 0 10000 (n / (g + 1 / 10000)) = 10000) = (10000 * (g + 1 / 10000) \<le> n)"
  using assms by (auto simp add: clamp_def min_def max_def field_simps)

lemma d_weight_adaptive:
  assumes init: "VQLPIPSWithDiscriminator_init lp D ds dl cw lw gw pw aw True = Inr m"
      and "calculate_adaptive_factor (set_training tr m) grad nll g_loss last_layer = Inr (scalar f)"
  shows "d_weight (set_training tr m) grad nll g_loss last_layer = Inr (scalar (aw * f))"
  by (simp add: d_weight_def init_attrs [OF init] assms(2) pointwise_scalar)

lemma d_weight_constant:
  assumes init: "VQLPIPSWithDiscriminator_init lp D ds dl cw lw gw pw aw False = Inr m"
  shows "d_weight (set_training tr m) grad nll g_loss last_layer = Inr (scalar aw)"
  by (simp add: d_weight_def init_attrs [OF init])

lemma d_weight_without_grad_path:
  assumes init: "VQLPIPSWithDiscriminator_init lp D ds dl cw lw gw pw aw True = Inr m"
      and "grad Of_nll_loss nll last_layer = Inl RuntimeError"
  shows "d_weight (set_training tr m) grad nll g_loss last_layer =
           (if tr then Inl AssertionError else Inr (scalar 0))"
  by (simp add: d_weight_def init_attrs [OF init] calculate_adaptive_factor_def assms(2))

lemma d_weight_zero:
  assumes init: "VQLPIPSWithDiscriminator_init lp D ds dl cw lw gw pw 0 ad = Inr m"
      and factor: "ad \<Longrightarrow> calculate_adaptive_factor (set_training tr m) grad nll g_loss last_layer
                          = Inr (scalar f)"
  shows "d_weight (set_training tr m) grad nll g_loss last_layer = Inr (scalar 0)"
proof (cases ad)
  case True
  with d_weight_adaptive [of lp D ds dl cw lw gw pw 0 m tr grad nll g_loss last_layer f] init factor
  show ?thesis by simp
next
  case False
  with d_weight_constant [of lp D ds dl cw lw gw pw 0 m tr grad nll g_loss last_layer] init
  show ?thesis by simp
qed

lemma adversarial_term_gated: "adversarial_term 0 (scalar w) (scalar g) = Inr (scalar 0)"
  by (simp add: adversarial_term_def pointwise_scalar bop_scalar)

lemma adversarial_term_zero_weight: "adversarial_term factor (scalar 0) (scalar g) = Inr (scalar 0)"
  by (simp add: adversarial_term_def pointwise_scalar bop_scalar)

section \<open>The discriminator branch\<close>

lemma disc_factor_warmup:
  assumes "VQLPIPSWithDiscriminator_init lp D disc_start dl cw lw gw pw aw ad = Inr m"
      and "global_step < disc_start"
  shows "disc_factor (set_training tr m) global_step = Inr 0"
  using assms(2) by (simp add: disc_factor_def init_attrs [OF assms(1)])

lemma discriminator_update_value:
  assumes init: "VQLPIPSWithDiscriminator_init lp D disc_start dl cw lw gw pw aw ad = Inr m"
      and real: "D (t_sigmoid logit_inputs) = Inr logits_real"
      and fake: "D (t_sigmoid mu) = Inr logits_fake"
      and L: "getattr (set_training tr m) ''disc_loss'' = Inr (ALoss L)"
  shows "discriminator_update (set_training tr m) grad logit_inputs mu global_step split =
           (let d = (if disc_start \<le> global_step then 1 else 0)
                      * item (L logits_fake (Some logits_real));
                entries = [(key split ''disc_loss'', scalar d),
                           (key split ''logits_real'', t_mean logits_real),
                           (key split ''logits_fake'', t_mean logits_fake)]
            in if tr \<and> global_step mod 16 = 0
               then and_then (grad Of_logits_real_sum (t_sum logits_real)
                                (Some (t_sigmoid logit_inputs))) (\<lambda>gradients.
                    case shape logit_inputs of
                      [] \<Rightarrow> Inl IndexError
                    | b # rest \<Rightarrow>
                        and_then (view_rows b gradients) (\<lambda>rows.
                        and_then (norm_rows rows) (\<lambda>norms.
                        Inr (scalar (d + 10 * mean_of (t_pow2 norms) / 2),
                             AList.update (key split ''r1_reg'') (t_mean (t_pow2 norms))
                               entries))))
               else Inr (scalar d, entries))"
proof -
  obtain L' where L': "getattr (set_training tr m) ''disc_loss'' = Inr (ALoss L')"
    and sc: "\<And>x y. is_scalar (L' x y)"
    using init_disc_loss [OF init] by blast
  from L L' have "L' = L" by simp
  with sc have "is_scalar (L logits_fake (Some logits_real))" by simp
  then have l: "L logits_fake (Some logits_real) = scalar (item (L logits_fake (Some logits_real)))"
    by (rule scalar_item)
  have shp: "shape (t_sigmoid logit_inputs) = shape logit_inputs"
    by (simp add: t_sigmoid_def pointwise_def)
  have scale: "pointwise ((*) c) (L logits_fake (Some logits_real))
                 = scalar (c * item (L logits_fake (Some logits_real)))" for c
    by (subst l) (simp add: pointwise_scalar)
  show ?thesis
    unfolding discriminator_update_def
    by (simp add: disc_factor_def init_attrs [OF init] L real fake scale detach_def clone_def
          Let_def shp t_mean_mean_of pointwise_scalar iadd_scalar
          cong: if_cong list.case_cong)
qed

section \<open>Objects a call does not touch\<close>

lemma take_length_le: "take (length ys) xs = ys \<Longrightarrow> length ys \<le> length xs"
  by (metis length_take min.cobounded1)

lemma unchanged_length:
  assumes "unchanged h0 h"
  shows "length (objs h0) \<le> length (objs h)" and "length (storages h0) \<le> length (storages h)"
  using assms by (simp_all add: unchanged_def take_length_le)

lemma unchanged_refl: "unchanged h h"
  by (simp add: unchanged_def)

lemma unchanged_append:
  "unchanged h0 h \<Longrightarrow> unchanged h0 \<lparr>objs = objs h @ os, storages = storages h @ ss\<rparr>"
  using unchanged_length [of h0 h] by (simp add: unchanged_def)

lemma own_append:
  "own h0 h a \<Longrightarrow> own h0 \<lparr>objs = objs h @ os, storages = storages h @ ss\<rparr> a"
  by (auto simp add: own_def nth_append)

lemma unchanged_more_objs:
  "unchanged h0 h \<Longrightarrow> unchanged h0 \<lparr>objs = objs h @ os, storages = storages h\<rparr>"
  using unchanged_append [of h0 h os "[]"] by simp

lemma own_more_objs:
  "own h0 h a \<Longrightarrow> own h0 \<lparr>objs = objs h @ os, storages = storages h\<rparr> a"
  using own_append [of h0 h a os "[]"] by simp

lemma keepsI:
  assumes "\<And>h. unchanged h0 h \<Longrightarrow> (\<forall>a \<in> owned. own h0 h a) \<Longrightarrow>
             unchanged h0 (snd (m h)) \<and> (\<forall>a \<in> owned. own h0 (snd (m h)) a)
             \<and> (\<forall>x. fst (m h) = Inr x \<longrightarrow> (\<forall>a \<in> new x. own h0 (snd (m h)) a))"
  shows "keeps h0 owned m new"
  using assms unfolding keeps_def by blast

lemma keeps_unchanged:
  assumes "keeps h0 {} m new"
  shows "unchanged h0 (snd (m h0))"
  using assms unchanged_refl [of h0] unfolding keeps_def by blast

lemma keeps_seq:
  assumes "keeps h0 owned m new" and "\<And>x. keeps h0 (owned \<union> new x) (f x) new'"
  shows "keeps h0 owned (seq m f) new'"
proof (rule keepsI)
  fix h assume pre: "unchanged h0 h" "\<forall>a \<in> owned. own h0 h a"
  obtain r h1 where m: "m h = (r, h1)" by (cases "m h")
  from assms(1) pre m have 1: "unchanged h0 h1" "\<forall>a \<in> owned. own h0 h1 a"
    "\<forall>x. r = Inr x \<longrightarrow> (\<forall>a \<in> new x. own h0 h1 a)"
    unfolding keeps_def by (metis fst_conv snd_conv)+
  show "unchanged h0 (snd (seq m f h)) \<and> (\<forall>a \<in> owned. own h0 (snd (seq m f h)) a)
        \<and> (\<forall>x. fst (seq m f h) = Inr x \<longrightarrow> (\<forall>a \<in> new' x. own h0 (snd (seq m f h)) a))"
  proof (cases r)
    case (Inl e)
    with m 1 show ?thesis by (simp add: seq_def)
  next
    case (Inr x)
    with 1 have "unchanged h0 h1" and "\<forall>a \<in> owned \<union> new x. own h0 h1 a" by auto
    with assms(2) [of x]
    have "unchanged h0 (snd (f x h1)) \<and> (\<forall>a \<in> owned \<union> new x. own h0 (snd (f x h1)) a)
        \<and> (\<forall>y. fst (f x h1) = Inr y \<longrightarrow> (\<forall>a \<in> new' y. own h0 (snd (f x h1)) a))"
      unfolding keeps_def by blast
    with m Inr show ?thesis by (simp add: seq_def)
  qed
qed

lemma keeps_forget:
  assumes "keeps h0 owned m new"
  shows "keeps h0 owned m (\<lambda>x. {})"
  using assms unfolding keeps_def by simp

lemma keeps_less:
  assumes "keeps h0 owned' m new" and "owned' \<subseteq> owned" and "owned \<subseteq> owned'"
  shows "keeps h0 owned m new"
  using assms by (simp add: subset_antisym)

lemma keeps_result: "keeps h0 owned (result x) (\<lambda>x. {})"
  by (simp add: keeps_def result_def)

lemma keeps_lift: "keeps h0 owned (lift r) (\<lambda>x. {})"
  by (simp add: keeps_def lift_def)

lemma keeps_if:
  assumes "c \<Longrightarrow> keeps h0 owned m1 new" and "\<not> c \<Longrightarrow> keeps h0 owned m2 new"
  shows "keeps h0 owned (if c then m1 else m2) new"
  using assms by simp

lemma keeps_case_prod:
  assumes "\<And>a b. keeps h0 owned (f a b) new"
  shows "keeps h0 owned (case p of (a, b) \<Rightarrow> f a b) new"
  using assms by (cases p) simp

lemma keeps_case_weight:
  assumes "\<And>w. keeps h0 owned (f w) new" and "\<And>d. keeps h0 owned (g d) new"
  shows "keeps h0 owned (case dw of WFloat w \<Rightarrow> f w | WTensor d \<Rightarrow> g d) new"
  using assms by (cases dw) simp_all

lemma keeps_catch:
  assumes "keeps h0 owned m new" and "keeps h0 owned handler new"
  shows "keeps h0 owned (catch_RuntimeError m handler) new"
proof (rule keepsI)
  fix h assume pre: "unchanged h0 h" "\<forall>a \<in> owned. own h0 h a"
  obtain r h1 where m: "m h = (r, h1)" by (cases "m h")
  from assms(1) pre m have 1: "unchanged h0 h1" "\<forall>a \<in> owned. own h0 h1 a"
    "\<forall>x. r = Inr x \<longrightarrow> (\<forall>a \<in> new x. own h0 h1 a)"
    unfolding keeps_def by (metis fst_conv snd_conv)+
  from assms(2) 1
  have 2: "unchanged h0 (snd (handler h1)) \<and> (\<forall>a \<in> owned. own h0 (snd (handler h1)) a)
        \<and> (\<forall>y. fst (handler h1) = Inr y \<longrightarrow> (\<forall>a \<in> new y. own h0 (snd (handler h1)) a))"
    unfolding keeps_def by blast
  show "unchanged h0 (snd (catch_RuntimeError m handler h))
        \<and> (\<forall>a \<in> owned. own h0 (snd (catch_RuntimeError m handler h)) a)
        \<and> (\<forall>x. fst (catch_RuntimeError m handler h) = Inr x
              \<longrightarrow> (\<forall>a \<in> new x. own h0 (snd (catch_RuntimeError m handler h)) a))"
    using m 1 2 by (auto simp add: catch_RuntimeError_def split: sum.splits error.splits)
qed

subsection \<open>The operations\<close>

lemma keeps_new_tensor: "keeps h0 owned (new_tensor rg t) (\<lambda>x. {x})"
proof (rule keepsI)
  fix h assume pre: "unchanged h0 h" "\<forall>a \<in> owned. own h0 h a"
  have "own h0 (snd (new_tensor rg t h)) (length (objs h))"
    using unchanged_length [OF pre(1)] by (simp add: new_tensor_def own_def)
  then show "unchanged h0 (snd (new_tensor rg t h))
        \<and> (\<forall>a \<in> owned. own h0 (snd (new_tensor rg t h)) a)
        \<and> (\<forall>x. fst (new_tensor rg t h) = Inr x
              \<longrightarrow> (\<forall>a \<in> {x}. own h0 (snd (new_tensor rg t h)) a))"
    using pre by (auto simp add: new_tensor_def unchanged_append own_append)
qed

lemma keeps_new_views: "keeps h0 owned (new_views a steps) (\<lambda>x. {})"
proof (rule keepsI)
  fix h assume pre: "unchanged h0 h" "\<forall>a \<in> owned. own h0 h a"
  have "snd (new_views a steps h) =
          \<lparr>objs = objs h @ map (\<lambda>s. \<lparr>storage = storage (objs h ! a), view = view (objs h ! a) @ [s],
                                      requires_grad = requires_grad (objs h ! a)\<rparr>) steps,
           storages = storages h\<rparr>"
    by (simp add: new_views_def)
  then show "unchanged h0 (snd (new_views a steps h))
        \<and> (\<forall>b \<in> owned. own h0 (snd (new_views a steps h)) b)
        \<and> (\<forall>x. fst (new_views a steps h) = Inr x
              \<longrightarrow> (\<forall>b \<in> {}. own h0 (snd (new_views a steps h)) b))"
    using pre by (simp add: unchanged_more_objs own_more_objs)
qed

lemma keeps_o_new: "keeps h0 owned (o_new rg f) (\<lambda>x. {x})"
proof (rule keepsI)
  fix h assume pre: "unchanged h0 h" "\<forall>a \<in> owned. own h0 h a"
  show "unchanged h0 (snd (o_new rg f h)) \<and> (\<forall>a \<in> owned. own h0 (snd (o_new rg f h)) a)
        \<and> (\<forall>x. fst (o_new rg f h) = Inr x \<longrightarrow> (\<forall>a \<in> {x}. own h0 (snd (o_new rg f h)) a))"
  proof (cases "f h")
    case (Inl e)
    with pre show ?thesis by (simp add: o_new_def)
  next
    case (Inr t)
    then have "o_new rg f h = new_tensor rg t h" by (simp add: o_new_def)
    with keeps_new_tensor [of h0 owned rg t] pre show ?thesis
      unfolding keeps_def by metis
  qed
qed

lemma keeps_o_apply: "keeps h0 owned (o_apply f a) (\<lambda>x. {x})"
proof (rule keepsI)
  fix h assume pre: "unchanged h0 h" "\<forall>a \<in> owned. own h0 h a"
  have "o_apply f a h = new_tensor (requires_grad (objs h ! a)) (f (value_at h a)) h"
    by (simp add: o_apply_def)
  with keeps_new_tensor [of h0 owned "requires_grad (objs h ! a)" "f (value_at h a)"] pre
  show "unchanged h0 (snd (o_apply f a h)) \<and> (\<forall>b \<in> owned. own h0 (snd (o_apply f a h)) b)
        \<and> (\<forall>x. fst (o_apply f a h) = Inr x \<longrightarrow> (\<forall>b \<in> {x}. own h0 (snd (o_apply f a h)) b))"
    unfolding keeps_def by metis
qed

lemma keeps_o_bop: "keeps h0 owned (o_bop f a b) (\<lambda>x. {x})"
proof (rule keepsI)
  fix h assume pre: "unchanged h0 h" "\<forall>a \<in> owned. own h0 h a"
  define rg where "rg = (requires_grad (objs h ! a) \<or> requires_grad (objs h ! b))"
  define g where "g = (\<lambda>h. bop f (value_at h a) (value_at h b))"
  have "o_bop f a b h = o_new rg g h"
    by (simp add: o_bop_def rg_def g_def)
  with keeps_o_new [of h0 owned rg g] pre
  show "unchanged h0 (snd (o_bop f a b h)) \<and> (\<forall>c \<in> owned. own h0 (snd (o_bop f a b h)) c)
        \<and> (\<forall>x. fst (o_bop f a b h) = Inr x \<longrightarrow> (\<forall>c \<in> {x}. own h0 (snd (o_bop f a b h)) c))"
    unfolding keeps_def by metis
qed

lemma keeps_o_clone: "keeps h0 owned (o_clone a) (\<lambda>x. {x})"
  unfolding o_clone_def by (rule keeps_o_apply)

lemma keeps_o_grad: "keeps h0 owned (o_grad grad rg request out wrt) (\<lambda>x. {x})"
  unfolding o_grad_def by (rule keeps_o_new)

lemma keeps_o_detach: "keeps h0 owned (o_detach a) (\<lambda>x. {})"
proof (rule keepsI)
  fix h assume pre: "unchanged h0 h" "\<forall>a \<in> owned. own h0 h a"
  have "snd (o_detach a h) =
          \<lparr>objs = objs h @ [\<lparr>storage = storage (objs h ! a), view = view (objs h ! a),
                              requires_grad = False\<rparr>],
           storages = storages h\<rparr>"
    by (simp add: o_detach_def)
  then show "unchanged h0 (snd (o_detach a h)) \<and> (\<forall>b \<in> owned. own h0 (snd (o_detach a h)) b)
        \<and> (\<forall>x. fst (o_detach a h) = Inr x \<longrightarrow> (\<forall>b \<in> {}. own h0 (snd (o_detach a h)) b))"
    using pre by (simp add: unchanged_more_objs own_more_objs)
qed

lemma keeps_o_requires_grad:
  assumes "a \<in> owned"
  shows "keeps h0 owned (o_requires_grad a) (\<lambda>x. {})"
proof (rule keepsI)
  fix h assume pre: "unchanged h0 h" "\<forall>a \<in> owned. own h0 h a"
  from assms pre have a: "length (objs h0) \<le> a" by (simp add: own_def)
  have "unchanged h0 (snd (o_requires_grad a h))"
    using pre(1) a by (simp add: o_requires_grad_def unchanged_def)
  moreover have "own h0 (snd (o_requires_grad a h)) b" if "own h0 h b" for b
    using that by (cases "b = a") (auto simp add: o_requires_grad_def own_def)
  ultimately
  show "unchanged h0 (snd (o_requires_grad a h))
        \<and> (\<forall>b \<in> owned. own h0 (snd (o_requires_grad a h)) b)
        \<and> (\<forall>x. fst (o_requires_grad a h) = Inr x
              \<longrightarrow> (\<forall>b \<in> {}. own h0 (snd (o_requires_grad a h)) b))"
    using pre(2) by simp
qed

lemma keeps_o_iadd:
  assumes "a \<in> owned"
  shows "keeps h0 owned (o_iadd a b) (\<lambda>x. {})"
proof (rule keepsI)
  fix h assume pre: "unchanged h0 h" "\<forall>a \<in> owned. own h0 h a"
  from assms pre have a: "length (storages h0) \<le> storage (objs h ! a)" by (simp add: own_def)
  have "unchanged h0 (snd (o_iadd a b h))"
    using pre(1) a by (simp add: o_iadd_def unchanged_def split: sum.split)
  moreover have "own h0 (snd (o_iadd a b h)) c" if "own h0 h c" for c
    using that by (simp add: o_iadd_def own_def split: sum.split)
  ultimately
  show "unchanged h0 (snd (o_iadd a b h)) \<and> (\<forall>c \<in> owned. own h0 (snd (o_iadd a b h)) c)
        \<and> (\<forall>x. fst (o_iadd a b h) = Inr x \<longrightarrow> (\<forall>c \<in> {}. own h0 (snd (o_iadd a b h)) c))"
    using pre(2) by simp
qed

lemma keeps_o_chunk: "keeps h0 owned (o_chunk chunks d a) (\<lambda>x. {})"
proof (rule keepsI)
  fix h assume pre: "unchanged h0 h" "\<forall>a \<in> owned. own h0 h a"
  show "unchanged h0 (snd (o_chunk chunks d a h)) \<and> (\<forall>b \<in> owned. own h0 (snd (o_chunk chunks d a h)) b)
        \<and> (\<forall>x. fst (o_chunk chunks d a h) = Inr x
              \<longrightarrow> (\<forall>b \<in> {}. own h0 (snd (o_chunk chunks d a h)) b))"
  proof (cases "chunk_steps chunks d (shape (value_at h a))")
    case (Inl e)
    with pre show ?thesis by (simp add: o_chunk_def)
  next
    case (Inr steps)
    then have "o_chunk chunks d a h = new_views a steps h" by (simp add: o_chunk_def)
    with keeps_new_views [of h0 owned a steps] pre show ?thesis
      unfolding keeps_def by metis
  qed
qed

lemma keeps_o_view_rows: "keeps h0 owned (o_view_rows b a) (\<lambda>x. {})"
proof (rule keepsI)
  fix h assume pre: "unchanged h0 h" "\<forall>a \<in> owned. own h0 h a"
  have *: "keeps h0 owned (seq (new_views a [s]) (\<lambda>vs. result (hd vs))) (\<lambda>x. {})" for s
    by (rule keeps_seq keeps_new_views keeps_result)+
  show "unchanged h0 (snd (o_view_rows b a h)) \<and> (\<forall>c \<in> owned. own h0 (snd (o_view_rows b a h)) c)
        \<and> (\<forall>x. fst (o_view_rows b a h) = Inr x
              \<longrightarrow> (\<forall>c \<in> {}. own h0 (snd (o_view_rows b a h)) c))"
  proof (cases "rows_step b (value_at h a)")
    case (Inl e)
    with pre show ?thesis by (simp add: o_view_rows_def)
  next
    case (Inr s)
    then have "o_view_rows b a h = seq (new_views a [s]) (\<lambda>vs. result (hd vs)) h"
      by (simp add: o_view_rows_def)
    with * [of s] pre show ?thesis
      unfolding keeps_def by metis
  qed
qed

lemma keeps_o_shape0: "keeps h0 owned (o_shape0 a) (\<lambda>x. {})"
  by (rule keepsI) (simp add: o_shape0_def split: list.split)

lemma keeps_o_contiguous: "keeps h0 owned (o_contiguous ref) (\<lambda>x. {})"
proof (cases ref)
  case (RTensor a)
  have *: "keeps h0 owned (seq (o_apply (\<lambda>t. t) a) (\<lambda>c. result (RTensor c))) (\<lambda>x. {})"
    by (rule keeps_seq keeps_o_apply keeps_result)+
  show ?thesis
  proof (rule keepsI)
    fix h assume pre: "unchanged h0 h" "\<forall>a \<in> owned. own h0 h a"
    show "unchanged h0 (snd (o_contiguous ref h)) \<and> (\<forall>c \<in> owned. own h0 (snd (o_contiguous ref h)) c)
          \<and> (\<forall>x. fst (o_contiguous ref h) = Inr x
                \<longrightarrow> (\<forall>c \<in> {}. own h0 (snd (o_contiguous ref h)) c))"
    proof (cases "view (objs h ! a) = []")
      case True
      with pre RTensor show ?thesis by simp
    next
      case False
      with RTensor have "o_contiguous ref h = seq (o_apply (\<lambda>t. t) a) (\<lambda>c. result (RTensor c)) h"
        by simp
      with * pre show ?thesis unfolding keeps_def by metis
    qed
  qed
next
  case (RTuple as)
  then show ?thesis by (simp add: keeps_lift)
qed

lemma keeps_o_tensor_of: "keeps h0 owned (o_tensor_of ref) (\<lambda>x. {})"
  by (cases ref) (simp_all add: keeps_lift keeps_result)

lemma keeps_o_items: "keeps h0 owned (o_items ref) (\<lambda>x. {})"
proof (cases ref)
  case (RTuple as)
  then show ?thesis by (simp add: keeps_result)
next
  case (RTensor a)
  show ?thesis
  proof (rule keepsI)
    fix h assume pre: "unchanged h0 h" "\<forall>a \<in> owned. own h0 h a"
    show "unchanged h0 (snd (o_items ref h)) \<and> (\<forall>c \<in> owned. own h0 (snd (o_items ref h)) c)
          \<and> (\<forall>x. fst (o_items ref h) = Inr x \<longrightarrow> (\<forall>c \<in> {}. own h0 (snd (o_items ref h)) c))"
    proof (cases "shape (value_at h a)")
      case Nil
      with pre RTensor show ?thesis by simp
    next
      case (Cons n rest)
      with RTensor have "o_items ref h = new_views a (map Select [0..<n]) h" by simp
      with keeps_new_views [of h0 owned a "map Select [0..<n]"] pre show ?thesis
        unfolding keeps_def by metis
    qed
  qed
qed

lemma keeps_unpack_case:
  "keeps h0 owned (case as of [a, b] \<Rightarrow> result (a, b) | _ \<Rightarrow> lift (Inl ValueError)) (\<lambda>x. {})"
  by (simp add: keeps_result keeps_lift split: list.split)

lemma keeps_o_unpack2: "keeps h0 owned (o_unpack2 ref) (\<lambda>x. {})"
  unfolding o_unpack2_def by (rule keeps_seq keeps_o_items keeps_unpack_case)+

lemmas keeps_allocating =
  keeps_new_tensor keeps_o_new keeps_o_apply keeps_o_bop keeps_o_clone keeps_o_grad

lemmas keeps_sharing =
  keeps_result keeps_lift keeps_new_views keeps_o_detach keeps_o_chunk keeps_o_view_rows
  keeps_o_shape0 keeps_o_contiguous keeps_o_tensor_of keeps_o_unpack2

lemmas keeps_rules =
  keeps_seq keeps_if keeps_case_prod keeps_case_weight keeps_catch
  keeps_allocating keeps_sharing keeps_allocating [THEN keeps_forget]

subsection \<open>The blocks of forward\<close>

lemma keeps_o_loglogitlaplace_loss:
  "keeps h0 owned (o_loglogitlaplace_loss mu log_sigma logit_inputs) (\<lambda>x. {})"
  unfolding o_loglogitlaplace_loss_def by (rule keeps_rules)+

lemma keeps_o_loggaussian_loss: "keeps h0 owned (o_loggaussian_loss mu logit_inputs) (\<lambda>x. {})"
  unfolding o_loggaussian_loss_def by (rule keeps_rules)+

lemma keeps_o_rescale: "keeps h0 owned (o_rescale a) (\<lambda>x. {})"
  unfolding o_rescale_def by (rule keeps_rules)+

lemma keeps_o_perceptual_loss: "keeps h0 owned (o_perceptual_loss self mu logit_inputs) (\<lambda>x. {})"
  unfolding o_perceptual_loss_def by (rule keeps_rules keeps_o_rescale)+

lemma keeps_o_nll_loss: "keeps h0 owned (o_nll_loss self a b c) (\<lambda>x. {})"
  unfolding o_nll_loss_def by (rule keeps_rules)+

lemma keeps_o_calculate_adaptive_factor:
  "keeps h0 owned (o_calculate_adaptive_factor self grad nll g_loss last_layer) (\<lambda>x. {})"
  unfolding o_calculate_adaptive_factor_def by (rule keeps_rules)+

lemma keeps_o_d_weight: "keeps h0 owned (o_d_weight self grad nll g_loss last_layer) (\<lambda>x. {})"
  unfolding o_d_weight_def by (rule keeps_rules keeps_o_calculate_adaptive_factor)+

lemma keeps_o_adversarial_term: "keeps h0 owned (o_adversarial_term factor dw g_loss) (\<lambda>x. {})"
  unfolding o_adversarial_term_def by (rule keeps_rules)+

lemma keeps_o_weight_detach: "keeps h0 owned (o_weight_detach dw) (\<lambda>x. {})"
  unfolding o_weight_detach_def by (rule keeps_rules)+

lemma keeps_o_generator_log: "keeps h0 owned (o_generator_log scope split) (\<lambda>x. {})"
  unfolding o_generator_log_def by (rule keeps_rules)+

lemma keeps_o_generator_update:
  "keeps h0 owned (o_generator_update self grad codebook_loss inputs outputs logit_inputs mu
     log_sigma global_step last_layer split) (\<lambda>x. {})"
  unfolding o_generator_update_def
  by (rule keeps_rules keeps_o_loglogitlaplace_loss keeps_o_loggaussian_loss
        keeps_o_perceptual_loss keeps_o_nll_loss keeps_o_d_weight keeps_o_adversarial_term
        keeps_o_weight_detach keeps_o_generator_log)+

lemma keeps_o_discriminator_update:
  "keeps h0 owned (o_discriminator_update self grad logit_inputs mu global_step split) (\<lambda>x. {})"
  unfolding o_discriminator_update_def
  by (rule keeps_rules keeps_o_requires_grad keeps_o_iadd | simp)+

lemma keeps_o_forward:
  "keeps h0 owned (o_forward self grad codebook_loss inputs outputs optimizer_idx global_step
     last_layer split) (\<lambda>x. {})"
  unfolding o_forward_def
  by (rule keeps_rules keeps_o_generator_update keeps_o_discriminator_update)+

lemma unchanged_trans:
  assumes "unchanged h0 h1" and "unchanged h1 h2"
  shows "unchanged h0 h2"
proof -
  have *: "take (length xs) zs = xs"
    if "take (length xs) ys = xs" and "take (length ys) zs = ys" for xs ys zs :: "'x list"
  proof -
    from that(1) have "length xs \<le> length ys" by (rule take_length_le)
    then have "take (length xs) zs = take (length xs) (take (length ys) zs)" by simp
    with that show ?thesis by simp
  qed
  from assms show ?thesis
    unfolding unchanged_def
    using * [of "objs h0" "objs h1" "objs h2"] * [of "storages h0" "storages h1" "storages h2"]
    by simp
qed

lemma unchanged_value:
  assumes "unchanged h h'" and "a < length (objs h)" and "storage (objs h ! a) < length (storages h)"
  shows "objs h' ! a = objs h ! a" and "value_at h' a = value_at h a"
proof -
  have *: "ys ! i = xs ! i" if "take (length xs) ys = xs" and "i < length xs" for xs ys :: "'x list" and i
    using that by (metis nth_take)
  from assms show 1: "objs h' ! a = objs h ! a"
    unfolding unchanged_def using * [of "objs h" "objs h'" a] by simp
  from assms have "storages h' ! storage (objs h ! a) = storages h ! storage (objs h ! a)"
    unfolding unchanged_def using * [of "storages h" "storages h'" "storage (objs h ! a)"] by simp
  with 1 show "value_at h' a = value_at h a"
    by (simp add: value_at_def)
qed

lemma o_apply_value:
  assumes "o_apply f a h = (Inr x, h')"
  shows "value_at h' x = f (value_at h a)"
  using assms by (auto simp add: o_apply_def new_tensor_def value_at_def)

lemma o_detach_value:
  assumes "o_detach a h = (Inr x, h')" and "storage (objs h ! a) < length (storages h)"
  shows "value_at h' x = value_at h a" and "storage (objs h' ! x) = storage (objs h ! a)"
  using assms by (auto simp add: o_detach_def value_at_def)

lemma o_iadd_value:
  assumes "iadd (value_at h a) (value_at h b) = Inr t"
      and "view (objs h ! a) = []" and "storage (objs h ! a) < length (storages h)"
  shows "value_at (snd (o_iadd a b h)) a = t"
  using assms by (simp add: o_iadd_def value_at_def)

lemma in_place_update_is_seen:
  "\<not> unchanged caller_heap (snd (o_requires_grad 1 caller_heap))"
  "\<not> unchanged caller_heap (snd (seq (o_detach 0) (\<lambda>alias. o_iadd alias 0) caller_heap))"
   apply (simp add: unchanged_def caller_heap_def o_requires_grad_def)
  apply (simp add: unchanged_def caller_heap_def seq_def o_detach_def o_iadd_def value_at_def
      iadd_def scalar_def broadcast_shapes_def expand_to_def)
  done

lemma o_forward_raises:
  assumes "outputs < length (objs h)" and "storage (objs h ! outputs) < length (storages h)"
  shows "fst (o_forward self grad codebook_loss inputs outputs optimizer_idx global_step last_layer
           split h)
         = Inl (if shape (value_at h outputs) = [] then RuntimeError
                else if length (shape (value_at h outputs)) \<le> 1 then IndexError
                else AttributeError ''contiguous'')"
proof -
  define h1 where "h1 = snd (o_apply (t_logit (1 / 10000)) inputs h)"
  have 1: "o_apply (t_logit (1 / 10000)) inputs h = (Inr (length (objs h)), h1)"
    by (simp add: h1_def o_apply_def new_tensor_def)
  have 2: "view (objs h1 ! length (objs h)) = []"
    by (simp add: h1_def o_apply_def new_tensor_def)
  have 3: "value_at h1 outputs = value_at h outputs"
    using assms by (simp add: h1_def o_apply_def new_tensor_def value_at_def nth_append)
  show ?thesis
    by (simp add: o_forward_def seq_def 1 2 3 result_def o_chunk_def chunk_steps_def lift_def
          new_views_def Let_def)
qed

lemma adaptive_factor_detached:
  assumes "fst (o_calculate_adaptive_factor self grad nll g_loss last_layer h) = Inr x"
  shows "\<not> requires_grad
             (objs (snd (o_calculate_adaptive_factor self grad nll g_loss last_layer h)) ! x)"
  using assms
  by (auto simp add: o_calculate_adaptive_factor_def seq_def o_detach_def
        split: prod.splits sum.splits)

section \<open>Evaluated scenarios\<close>

text \<open>
  The two branches on the summing discriminator and its engine, entered with \<open>mu\<close> and
  the losses in hand. Before \<open>disc_start\<close>, at a training step divisible by 16, the
  discriminator branch returns the R1 penalty: the gradient of the summed logits is 1 in
  each of the three values of the image, its squared norm is 3, and the loss is
  \<open>0 + 10 * 3 / 2\<close>. For gradients of norm 1/2 and 1 the adaptive factor is
  \<open>(1/2) / (1 + 1e-4)\<close>.
\<close>

lemma sum_logits_half:
  "sum_logits (t_sigmoid zeros3) = Inr \<lparr>shape = [1, 1], elems = [3 / 2]\<rparr>"
  by (simp add: sum_logits_def t_sigmoid_def pointwise_def zeros3_def sigmoid_def block_def)

lemma r1_example:
  "discriminator_update (set_training True (summing_module 1 1 False)) linear_grads zeros3 zeros3
       0 (Some ''train'')
     = Inr (scalar 15,
            [(''train/disc_loss'', scalar 0), (''train/logits_real'', scalar (3 / 2)),
             (''train/logits_fake'', scalar (3 / 2)), (''train/r1_reg'', scalar 3)])"
proof -
  have L: "getattr (set_training True (summing_module 1 1 False)) ''disc_loss''
             = Inr (ALoss hinge_d_loss)"
    by (simp add: getattr_def set_training_def summing_module_def the_module_def
          VQLPIPSWithDiscriminator_init_def)
  show ?thesis
    by (subst discriminator_update_value [OF summing_module_init sum_logits_half sum_logits_half L])
       (simp add: linear_grads_def full_like_def t_sigmoid_def zeros3_def view_rows_def
          rows_step_def norm_rows_def upt_rec [of 0] l2_def t_pow2_def pointwise_def mean_of_def
          t_mean_def key_def scalar_def hinge_d_loss_def item_def relu_def)
qed

lemma l2_examples: "l2 [1 / 2] = 1 / 2" "l2 [1] = 1"
  by (simp_all add: l2_def real_sqrt_divide power_divide)

lemma adaptive_factor_example:
  "calculate_adaptive_factor self linear_grads nll g_loss (Some (scalar 1))
     = Inr (scalar (5000 / 10001))"
  by (subst adaptive_factor_value [where nll_grads = "scalar (1 / 2)" and g_grads = "scalar 1"])
     (simp_all add: linear_grads_def full_like_def scalar_def l2_examples clamp_def)

lemma sigmoid_ln: "0 < x \<Longrightarrow> x < 1 \<Longrightarrow> sigmoid (ln (x / (1 - x))) = x"
  by (simp add: sigmoid_def exp_minus ln_div exp_diff field_simps)

lemma sigmoid_logit: "0 < eps \<Longrightarrow> eps < x \<Longrightarrow> x < 1 - eps \<Longrightarrow> sigmoid (logit eps x) = x"
  by (simp add: logit_def clamp_def Let_def sigmoid_ln)

section \<open>The claims\<close>

text \<open>
  Three statements of the module stop every call of \<^verbatim>\<open>forward\<close>, in both classes.
  \<^item> Lines 39 and 104 call \<^verbatim>\<open>contiguous\<close> on the tuple that \<^verbatim>\<open>chunk\<close> returns: \<open>AttributeError\<close>
    (lemmas \<open>forward_raises\<close> and \<open>VQLPIPS_forward_raises\<close>).
  \<^item> Lines 45 and 113 read \<^verbatim>\<open>self.loglogitlaplace_weight\<close>; the constructors bind
    \<^verbatim>\<open>loglaplace_weight\<close>: \<open>AttributeError\<close> (lemma \<open>nll_loss_raises\<close>).
  \<^item> Lines 51 and 133 read the name \<^verbatim>\<open>loglaplace_loss\<close>; the value is bound to
    \<^verbatim>\<open>loglogitlaplace_loss\<close>: \<open>NameError\<close> (lemma \<open>generator_log_never_returns\<close>).

  Line 140 writes the key as \<^verbatim>\<open>f"{}/d_weight".format(split)\<close>, which Python rejects when it
  compiles the file; the model reads it as the other keys are written, without the
  letter \<^verbatim>\<open>f\<close>. The model is thus the source with that line repaired: where a theorem
  below says that a call returns nothing, the source as written, which cannot be
  imported, returns nothing either.
\<close>

text \<open>
  \<^bold>\<open>C1\<close>. Claimed: every generator-phase call returns
  \<open>nll_loss + disc_factor * d_weight * g_loss + codebook_weight * codebook_loss\<close>. On the
  scenario of the specification (constant 0.5 image, zero outputs, hinge variant, adaptive
  weighting off) the call returns no loss: it raises at line 104.
\<close>

theorem generator_scenario_call_raises:
  "VQLPIPSWithDiscriminator_forward (hinge_module 0 1 False) no_grad_path (scalar 0) half_image
       zero_outputs 0 0 None (Some ''train'')
     = Inl (AttributeError ''contiguous'')"
  by (simp add: forward_raises zero_outputs_def)

text \<open>
  \<^bold>\<open>C2\<close>. Claimed: with \<open>global_step < disc_start\<close> every discriminator-phase call
  returns a loss of zero, for any discriminator output, and every generator-phase call a
  loss without a contribution of \<open>g_loss\<close>. At step 1 with \<open>disc_start = 5\<close>, a step at
  which no R1 penalty is due, neither call returns a loss: both raise at line 104. (The
  gate of lines 127 and 152 is 0 at that step, lemma \<open>disc_factor_warmup\<close>, and line 153
  multiplies the adversarial loss by it; the R1 penalty of lines 160 to 167 is added
  after the gate, lemma \<open>discriminator_update_value\<close>.)
\<close>

theorem warmup_calls_raise:
  "VQLPIPSWithDiscriminator_forward (set_training True (summing_module 5 1 False)) linear_grads
       (scalar 0) half_image zero_outputs 1 1 None (Some ''train'')
     = Inl (AttributeError ''contiguous'')
   \<and> VQLPIPSWithDiscriminator_forward (set_training True (summing_module 5 1 False)) linear_grads
       (scalar 0) half_image zero_outputs 0 1 None (Some ''train'')
     = Inl (AttributeError ''contiguous'')"
  by (simp add: forward_raises zero_outputs_def)

text \<open>
  \<^bold>\<open>C3\<close>. Claimed: in every generator-phase call \<open>g_loss\<close> is the generator form of the
  configured loss at \<open>discriminator(sigmoid(mu))\<close>, for hinge \<open>- mean(logits_fake)\<close>. With
  a discriminator that answers the logits 2 and 4 the hinge generator form is \<open>- 3\<close>, but
  the call raises at line 104 before the discriminator is asked.
\<close>

theorem hinge_generator_call_raises:
  "VQLPIPSWithDiscriminator_forward
       (the_module (VQLPIPSWithDiscriminator_init no_distance two_logits 0 ''hinge'' 1 1 1 1 1 False))
       no_grad_path (scalar 0) half_image zero_outputs 0 0 None (Some ''train'')
     = Inl (AttributeError ''contiguous'')
   \<and> hinge_d_loss \<lparr>shape = [1, 2], elems = [2, 4]\<rparr> None = scalar (- 3)"
  by (simp add: forward_raises zero_outputs_def hinge_d_loss_def mean_of_def)

text \<open>
  \<^bold>\<open>C4\<close>. Claimed: every discriminator-phase call adds the R1 penalty exactly when the module
  is training and \<open>global_step mod 16 = 0\<close>, and then records \<open>r1_reg\<close>. At step 16 in
  training mode the call raises at line 104; nothing is added or recorded. (The branch
  itself, reached with \<open>mu\<close> in hand, behaves as claimed: lemma
  \<open>discriminator_update_value\<close>.)
\<close>

theorem discriminator_call_at_step_16_raises:
  "VQLPIPSWithDiscriminator_forward (set_training True (hinge_module 0 1 False)) small_nll_grads
       (scalar 0) half_image zero_outputs 1 16 None (Some ''train'')
     = Inl (AttributeError ''contiguous'')"
  by (simp add: forward_raises zero_outputs_def)

text \<open>
  \<^bold>\<open>C5\<close>. Claimed: in every generator-phase call with adaptive weighting enabled and a
  valid gradient path the adaptive factor is the clamped ratio of the two gradient norms,
  detached, and \<open>d_weight\<close> is \<open>adversarial_weight\<close> times it. A training-mode call with
  adaptive weighting enabled, a reference tensor and an engine that has both gradients
  computes no factor and no weight: it raises at line 104, before any gradient is asked
  for. (\<^verbatim>\<open>calculate_adaptive_factor\<close> itself, called with both losses in hand, returns the
  clamped ratio, lemmas \<open>adaptive_factor_value\<close> and \<open>clamp_bounds\<close>, as an object that
  does not require gradients, lemma \<open>adaptive_factor_detached\<close>.)
\<close>

theorem adaptive_call_raises:
  "VQLPIPSWithDiscriminator_forward (set_training True (summing_module 0 1 True)) linear_grads
       (scalar 0) half_image zero_outputs 0 0 (Some (scalar 1)) (Some ''train'')
     = Inl (AttributeError ''contiguous'')"
  by (simp add: forward_raises zero_outputs_def)

text \<open>
  \<^bold>\<open>C6\<close>. Claimed: when the gradient computation of the adaptive weight fails, a module in
  evaluation mode falls back to \<open>d_weight = 0\<close> and the call returns; in training mode the
  call raises. A generator-phase call in evaluation mode with no gradient path does not
  return: it raises at line 104, before any gradient is asked for. (The \<^verbatim>\<open>try\<close> block
  itself behaves as claimed: lemma \<open>d_weight_without_grad_path\<close>.)
\<close>

theorem eval_call_without_grad_path_raises:
  "VQLPIPSWithDiscriminator_forward (set_training False (hinge_module 0 1 True)) no_grad_path
       (scalar 0) half_image zero_outputs 0 0 (Some (scalar 1)) (Some ''val'')
     = Inl (AttributeError ''contiguous'')"
  by (simp add: forward_raises zero_outputs_def)

text \<open>
  \<^bold>\<open>C7\<close>. Claimed: with \<open>adversarial_weight = 0\<close> every generator-phase call returns exactly
  \<open>nll_loss + codebook_weight * codebook_loss\<close>. The call with weight 0 returns no loss: it
  raises at line 104.
\<close>

theorem zero_adversarial_weight_call_raises:
  "VQLPIPSWithDiscriminator_forward (hinge_module 0 0 False) no_grad_path (scalar 0) half_image
       zero_outputs 0 0 None (Some ''train'')
     = Inl (AttributeError ''contiguous'')"
  by (simp add: forward_raises zero_outputs_def)

text \<open>
  \<^bold>\<open>C8\<close>. For every \<open>x\<close> strictly between \<open>eps = 1e-4\<close> and \<open>1 - eps\<close>, the sigmoid of the
  clamped logit of \<open>x\<close> is \<open>x\<close>; hence for an image with all values in that range
  \<open>sigmoid(logit(inputs))\<close>, the real image of the discriminator branch, is the image
  itself. (Over the reals the identity is exact.)
\<close>

theorem sigmoid_logit_round_trip:
  "(1 / 10000 < x \<and> x < 1 - 1 / 10000 \<longrightarrow> sigmoid (logit (1 / 10000) x) = x)
   \<and> ((\<forall>y \<in> set (elems inputs). 1 / 10000 < y \<and> y < 1 - 1 / 10000)
        \<longrightarrow> t_sigmoid (t_logit (1 / 10000) inputs) = inputs)"
proof (intro conjI impI)
  assume "1 / 10000 < x \<and> x < 1 - 1 / 10000"
  then show "sigmoid (logit (1 / 10000) x) = x"
    by (simp add: sigmoid_logit)
next
  assume range: "\<forall>y \<in> set (elems inputs). 1 / 10000 < y \<and> y < 1 - 1 / 10000"
  have "map (\<lambda>y. sigmoid (logit (1 / 10000) y)) (elems inputs) = elems inputs"
    using range by (simp add: map_idI sigmoid_logit)
  then show "t_sigmoid (t_logit (1 / 10000) inputs) = inputs"
    by (simp add: t_sigmoid_def t_logit_def pointwise_def comp_def)
qed

theorem sigmoid_logit_round_trip_witness:
  "(1 / 10000 < (1 / 4 :: real) \<and> (1 / 4 :: real) < 1 - 1 / 10000)
   \<and> sigmoid (logit (1 / 10000) (1 / 4)) = 1 / 4
   \<and> list_all (\<lambda>y. 1 / 10000 < y \<and> y < 1 - 1 / 10000) (elems quarter_image)
   \<and> t_sigmoid (t_logit (1 / 10000) quarter_image) = quarter_image"
  using sigmoid_logit_round_trip [of "1 / 4" quarter_image]
  by (simp add: quarter_image_def)

text \<open>
  \<^bold>\<open>C9\<close>. No call of \<^verbatim>\<open>forward\<close> updates a tensor of its caller in place: every object and
  every storage that exists when the call starts is the same when it ends, whether it
  returns or raises. Hence after a generator-phase call the tensors passed on to the
  discriminator-phase call of the same step are unchanged, and they still are after that
  call. The same holds of the two branches taken by themselves: the discriminator branch
  sets \<^verbatim>\<open>requires_grad\<close> on the object it has just computed as \<open>sigmoid(logit(inputs))\<close> and
  adds the penalty into the loss object it has just computed, and the fake branch is a
  detached object; no other statement updates in place.
\<close>

theorem forward_leaves_callers_tensors:
  "unchanged h (snd (o_forward self grad codebook_loss inputs outputs optimizer_idx global_step
                       last_layer split h))
   \<and> unchanged h (snd (o_forward self grad codebook_loss inputs outputs 1 global_step last_layer
                       split
                       (snd (o_forward self grad codebook_loss inputs outputs 0 global_step
                               last_layer split h))))
   \<and> unchanged h (snd (o_generator_update self grad codebook_loss inputs outputs logit_inputs mu
                         log_sigma global_step last_layer split h))
   \<and> unchanged h (snd (o_discriminator_update self grad logit_inputs mu global_step split h))"
proof (intro conjI)
  show "unchanged h (snd (o_forward self grad codebook_loss inputs outputs optimizer_idx global_step
                       last_layer split h))"
    by (rule keeps_unchanged) (rule keeps_o_forward)
  show "unchanged h (snd (o_forward self grad codebook_loss inputs outputs 1 global_step last_layer
                       split
                       (snd (o_forward self grad codebook_loss inputs outputs 0 global_step
                               last_layer split h))))"
    by (rule unchanged_trans; rule keeps_unchanged; rule keeps_o_forward)
  show "unchanged h (snd (o_generator_update self grad codebook_loss inputs outputs logit_inputs mu
                         log_sigma global_step last_layer split h))"
    by (rule keeps_unchanged) (rule keeps_o_generator_update)
  show "unchanged h (snd (o_discriminator_update self grad logit_inputs mu global_step split h))"
    by (rule keeps_unchanged) (rule keeps_o_discriminator_update)
qed

text \<open>
  \<^bold>\<open>C10\<close>. Two calls of \<^verbatim>\<open>VQLPIPS.forward\<close> on the same module that agree on
  \<open>codebook_loss\<close>, \<open>inputs\<close>, \<open>outputs\<close> and \<open>split\<close> have the same outcome, whatever
  \<open>optimizer_idx\<close>, \<open>global_step\<close> and \<open>last_layer\<close> are in each: the body of lines 38 to
  56 reads none of the three. (The common outcome is the exception of line 39, lemma
  \<open>VQLPIPS_forward_raises\<close>; the equation does not depend on it.)
\<close>

theorem VQLPIPS_forward_ignores_phase:
  "VQLPIPS_forward self codebook_loss inputs outputs optimizer_idx global_step last_layer split =
   VQLPIPS_forward self codebook_loss inputs outputs optimizer_idx' global_step' last_layer' split"
  unfolding VQLPIPS_forward_def by (rule refl)

end
